theory Spec2Isabelle
  imports Main "HOL-Library.List_Lexorder" "HOL-Library.Sublist" "HOL-Library.AList"
    "HOL-Library.Multiset"
begin

section \<open>Strings\<close>

text \<open>
  A Python \<open>str\<close> is a sequence of Unicode code points, so a string of the program is a
  list of code points (\<open>ord\<close> of each character), each below \<open>0x110000\<close>. The order on
  strings is Python's: lexicographic by code point.
\<close>

type_synonym pystr = "nat list"

definition py :: "string \<Rightarrow> pystr" where
  \<comment> \<open>an ASCII literal of the source as a Python string\<close>
  "py s = map of_char s"

definition wellformed :: "pystr \<Rightarrow> bool" where
  \<comment> \<open>every element is a Unicode code point\<close>
  "wellformed s \<longleftrightarrow> (\<forall>c \<in> set s. c < 0x110000)"

definition is_high_surrogate :: "nat \<Rightarrow> bool" where
  "is_high_surrogate c \<longleftrightarrow> 0xD800 \<le> c \<and> c \<le> 0xDBFF"

definition is_low_surrogate :: "nat \<Rightarrow> bool" where
  "is_low_surrogate c \<longleftrightarrow> 0xDC00 \<le> c \<and> c \<le> 0xDFFF"

fun surrogate_pair_free :: "pystr \<Rightarrow> bool" where
  \<comment> \<open>no high surrogate is immediately followed by a low surrogate\<close>
  "surrogate_pair_free (a # b # s) \<longleftrightarrow>
     \<not> (is_high_surrogate a \<and> is_low_surrogate b) \<and> surrogate_pair_free (b # s)"
| "surrogate_pair_free _ \<longleftrightarrow> True"

subsection \<open>\<open>str.strip()\<close> and \<open>str.lower()\<close>\<close>

definition isspace :: "nat \<Rightarrow> bool" where
  \<comment> \<open>the code points \<open>str.strip()\<close> removes: those for which \<open>str.isspace()\<close> holds\<close>
  "isspace c \<longleftrightarrow>
     (0x09 \<le> c \<and> c \<le> 0x0D) \<or> (0x1C \<le> c \<and> c \<le> 0x20) \<or> c = 0x85 \<or> c = 0xA0 \<or>
     c = 0x1680 \<or> (0x2000 \<le> c \<and> c \<le> 0x200A) \<or> c = 0x2028 \<or> c = 0x2029 \<or>
     c = 0x202F \<or> c = 0x205F \<or> c = 0x3000"

definition strip :: "pystr \<Rightarrow> pystr" where
  "strip s = rev (dropWhile isspace (rev (dropWhile isspace s)))"

definition ascii_lower :: "nat \<Rightarrow> nat" where
  "ascii_lower c = (if 0x41 \<le> c \<and> c \<le> 0x5A then c + 0x20 else c)"

definition lower :: "(pystr \<Rightarrow> pystr) \<Rightarrow> pystr \<Rightarrow> pystr" where
  \<comment> \<open>\<open>str.lower()\<close>. On an ASCII string it maps \<open>A\<close>..\<open>Z\<close> to \<open>a\<close>..\<open>z\<close>; on any other
      string it follows the case tables of the Unicode database, which are not part of
      the program: they are the parameter \<open>unicode_lower\<close>.\<close>
  "lower unicode_lower s =
     (if \<forall>c \<in> set s. c < 0x80 then map ascii_lower s else unicode_lower s)"

section \<open>JSON text\<close>

text \<open>
  The registry file is written by \<open>json.dumps(store, indent=2, sort_keys=True)\<close> and read
  by \<open>json.loads\<close>. Both are functions of the standard library; they are modelled on
  strings after its encoder (\<open>encode_basestring_ascii\<close>, \<open>iterencode\<close>) and its decoder
  (\<open>scanstring\<close>, \<open>scan_once\<close>, \<open>JSONObject\<close>, \<open>JSONArray\<close>). A JSON number is carried as
  the token it was read from and written back as that token; \<open>NaN\<close>, \<open>Infinity\<close> and
  \<open>-Infinity\<close> are such tokens. A JSON object is the dict built from its pairs: an
  association list with distinct keys, in the order of insertion.
\<close>

datatype json =
    JNull
  | JBool bool
  | JNum pystr
  | JStr pystr
  | JArr "json list"
  | JObj "(pystr \<times> json) list"

subsection \<open>Writing: \<open>json.dumps(obj, indent=2, sort_keys=True)\<close>\<close>

definition hex_digit :: "nat \<Rightarrow> nat" where
  \<comment> \<open>the lower-case hexadecimal digit of a value below 16\<close>
  "hex_digit d = (if d < 10 then 0x30 + d else 0x57 + d)"

definition hex4 :: "nat \<Rightarrow> pystr" where
  \<comment> \<open>\<open>'{0:04x}'.format(n)\<close> for \<open>n < 0x10000\<close>\<close>
  "hex4 n = [hex_digit (n div 4096 mod 16), hex_digit (n div 256 mod 16),
             hex_digit (n div 16 mod 16), hex_digit (n mod 16)]"

definition encode_char :: "nat \<Rightarrow> pystr" where
  \<comment> \<open>one character under \<open>ensure_ascii=True\<close>. For \<open>n < 0x100000\<close> the two halves
      \<open>0xd800 | ((n >> 10) & 0x3ff)\<close> and \<open>0xdc00 | (n & 0x3ff)\<close> of the library are the
      sums below.\<close>
  "encode_char c =
     (if c = 0x5C then [0x5C, 0x5C]
      else if c = 0x22 then [0x5C, 0x22]
      else if c = 0x08 then 0x5C # py ''b''
      else if c = 0x0C then 0x5C # py ''f''
      else if c = 0x0A then 0x5C # py ''n''
      else if c = 0x0D then 0x5C # py ''r''
      else if c = 0x09 then 0x5C # py ''t''
      else if 0x20 \<le> c \<and> c \<le> 0x7E then [c]
      else if c < 0x10000 then 0x5C # py ''u'' @ hex4 c
      else (let n = c - 0x10000;
                s1 = 0xD800 + n div 1024 mod 1024;
                s2 = 0xDC00 + n mod 1024
            in 0x5C # py ''u'' @ hex4 s1 @ 0x5C # py ''u'' @ hex4 s2))"

definition encode_basestring_ascii :: "pystr \<Rightarrow> pystr" where
  "encode_basestring_ascii s = [0x22] @ concat (map encode_char s) @ [0x22]"

definition newline_indent :: "nat \<Rightarrow> pystr" where
  \<comment> \<open>a line feed and \<open>2 * level\<close> spaces\<close>
  "newline_indent level = 0x0A # replicate (2 * level) 0x20"

fun join :: "pystr \<Rightarrow> pystr list \<Rightarrow> pystr" where
  "join sep [] = []"
| "join sep [x] = x"
| "join sep (x # y # ys) = x @ sep @ join sep (y # ys)"

fun iterencode :: "nat \<Rightarrow> json \<Rightarrow> pystr" where
  \<comment> \<open>the text of a value at a nesting level\<close>
  "iterencode level JNull = py ''null''"
| "iterencode level (JBool b) = (if b then py ''true'' else py ''false'')"
| "iterencode level (JNum tok) = tok"
| "iterencode level (JStr s) = encode_basestring_ascii s"
| "iterencode level (JArr xs) =
     (if xs = [] then py ''[]''
      else py ''['' @ newline_indent (Suc level)
           @ join (py '','' @ newline_indent (Suc level)) (map (iterencode (Suc level)) xs)
           @ newline_indent level @ py '']'')"
| "iterencode level (JObj dct) =
     (if dct = [] then py ''{}''
      else py ''{'' @ newline_indent (Suc level)
           @ join (py '','' @ newline_indent (Suc level))
               (map (\<lambda>(k, v). encode_basestring_ascii k @ py '': '' @ iterencode (Suc level) v)
                    (sort_key fst dct))
           @ newline_indent level @ py ''}'')"

definition dumps :: "json \<Rightarrow> pystr" where
  "dumps obj = iterencode 0 obj"

subsection \<open>Reading: \<open>json.loads(text)\<close>\<close>

definition is_ws :: "nat \<Rightarrow> bool" where
  \<comment> \<open>JSON white space: space, tab, line feed, carriage return\<close>
  "is_ws c \<longleftrightarrow> c = 0x20 \<or> c = 0x09 \<or> c = 0x0A \<or> c = 0x0D"

definition skip_ws :: "pystr \<Rightarrow> pystr" where
  "skip_ws s = dropWhile is_ws s"

definition is_digit :: "nat \<Rightarrow> bool" where
  "is_digit c \<longleftrightarrow> 0x30 \<le> c \<and> c \<le> 0x39"

definition hex_value :: "nat \<Rightarrow> nat option" where
  "hex_value c =
     (if 0x30 \<le> c \<and> c \<le> 0x39 then Some (c - 0x30)
      else if 0x61 \<le> c \<and> c \<le> 0x66 then Some (c - 0x57)
      else if 0x41 \<le> c \<and> c \<le> 0x46 then Some (c - 0x37)
      else None)"

definition decode_uXXXX :: "nat \<Rightarrow> nat \<Rightarrow> nat \<Rightarrow> nat \<Rightarrow> nat option" where
  \<comment> \<open>the value of four hexadecimal digits\<close>
  "decode_uXXXX a b c d =
     (case (hex_value a, hex_value b, hex_value c, hex_value d) of
        (Some x, Some y, Some z, Some w) \<Rightarrow> Some (x * 4096 + y * 256 + z * 16 + w)
      | _ \<Rightarrow> None)"

definition backslash :: "nat \<Rightarrow> nat option" where
  \<comment> \<open>the one-letter escapes\<close>
  "backslash e =
     (if e = 0x22 then Some 0x22
      else if e = 0x5C then Some 0x5C
      else if e = 0x2F then Some 0x2F
      else if e = 0x62 then Some 0x08
      else if e = 0x66 then Some 0x0C
      else if e = 0x6E then Some 0x0A
      else if e = 0x72 then Some 0x0D
      else if e = 0x74 then Some 0x09
      else None)"

definition low_half :: "pystr \<Rightarrow> nat option" where
  \<comment> \<open>the low surrogate of a second \<open>u\<close> escape, if the text starts with one\<close>
  "low_half s =
     (case s of
        bs # u # a # b # c # d # r \<Rightarrow>
          (if bs = 0x5C \<and> u = 0x75 then
             (case decode_uXXXX a b c d of
                Some uni2 \<Rightarrow> if is_low_surrogate uni2 then Some uni2 else None
              | None \<Rightarrow> None)
           else None)
      | _ \<Rightarrow> None)"

fun scanstring :: "pystr \<Rightarrow> (pystr \<times> pystr) option" where
  \<comment> \<open>the string that starts after an opening quote, and the text after its closing
      quote; \<open>None\<close> is a \<open>JSONDecodeError\<close>\<close>
  "scanstring [] = None"
| "scanstring (c # s) =
     (if c = 0x22 then Some ([], s)
      else if c = 0x5C then
        (case s of
           [] \<Rightarrow> None
         | e # s1 \<Rightarrow>
             if e = 0x75 then
               (case s1 of
                  a # b # c # d # s2 \<Rightarrow>
                    (case decode_uXXXX a b c d of
                       None \<Rightarrow> None
                     | Some uni \<Rightarrow>
                         (case (if is_high_surrogate uni then low_half s2 else None) of
                            Some uni2 \<Rightarrow>
                              (case scanstring (drop 6 s2) of
                                 None \<Rightarrow> None
                               | Some (chunk, rest) \<Rightarrow>
                                   Some ((0x10000 + (uni - 0xD800) * 1024 + (uni2 - 0xDC00))
                                           # chunk, rest))
                          | None \<Rightarrow>
                              (case scanstring s2 of
                                 None \<Rightarrow> None
                               | Some (chunk, rest) \<Rightarrow> Some (uni # chunk, rest))))
                | _ \<Rightarrow> None)
             else
               (case backslash e of
                  None \<Rightarrow> None
                | Some ch \<Rightarrow>
                    (case scanstring s1 of
                       None \<Rightarrow> None
                     | Some (chunk, rest) \<Rightarrow> Some (ch # chunk, rest))))
      else if c < 0x20 then None
      else
        (case scanstring s of
           None \<Rightarrow> None
         | Some (chunk, rest) \<Rightarrow> Some (c # chunk, rest)))"

definition match_int :: "pystr \<Rightarrow> (pystr \<times> pystr) option" where
  \<comment> \<open>\<open>-?(0|[1-9][0-9]*)\<close>\<close>
  "match_int s =
     (let (sign, s1) = (case s of c # r \<Rightarrow> if c = 0x2D then ([c], r) else ([], s) | [] \<Rightarrow> ([], s))
      in case s1 of
           [] \<Rightarrow> None
         | c # r \<Rightarrow>
             if c = 0x30 then Some (sign @ [c], r)
             else if is_digit c then Some (sign @ takeWhile is_digit s1, dropWhile is_digit s1)
             else None)"

definition match_frac :: "pystr \<Rightarrow> pystr \<times> pystr" where
  \<comment> \<open>\<open>(\.[0-9]+)?\<close>\<close>
  "match_frac s =
     (case s of
        p # d # r \<Rightarrow>
          if p = 0x2E \<and> is_digit d then (p # takeWhile is_digit (d # r), dropWhile is_digit (d # r))
          else ([], s)
      | _ \<Rightarrow> ([], s))"

definition match_exp :: "pystr \<Rightarrow> pystr \<times> pystr" where
  \<comment> \<open>\<open>([eE][-+]?[0-9]+)?\<close>\<close>
  "match_exp s =
     (case s of
        e # r \<Rightarrow>
          if e = 0x65 \<or> e = 0x45 then
            (let (sign, r1) = (case r of c # r' \<Rightarrow> if c = 0x2D \<or> c = 0x2B then ([c], r') else ([], r)
                                       | [] \<Rightarrow> ([], r))
             in case r1 of
                  d # _ \<Rightarrow> if is_digit d then (e # sign @ takeWhile is_digit r1, dropWhile is_digit r1)
                           else ([], s)
                | [] \<Rightarrow> ([], s))
          else ([], s)
      | [] \<Rightarrow> ([], s))"

definition match_number :: "pystr \<Rightarrow> (pystr \<times> pystr) option" where
  "match_number s =
     (case match_int s of
        None \<Rightarrow> None
      | Some (i, s1) \<Rightarrow>
          (let (f, s2) = match_frac s1; (e, s3) = match_exp s2 in Some (i @ f @ e, s3)))"

definition startswith :: "pystr \<Rightarrow> pystr \<Rightarrow> bool" where
  "startswith w s \<longleftrightarrow> take (length w) s = w"

definition scan_atom :: "pystr \<Rightarrow> (json \<times> pystr) option" where
  \<comment> \<open>the values that are neither string, object nor array, in the scanner's order\<close>
  "scan_atom s =
     (if startswith (py ''null'') s then Some (JNull, drop 4 s)
      else if startswith (py ''true'') s then Some (JBool True, drop 4 s)
      else if startswith (py ''false'') s then Some (JBool False, drop 5 s)
      else
        (case match_number s of
           Some (tok, rest) \<Rightarrow> Some (JNum tok, rest)
         | None \<Rightarrow>
             (if startswith (py ''NaN'') s then Some (JNum (py ''NaN''), drop 3 s)
              else if startswith (py ''Infinity'') s then Some (JNum (py ''Infinity''), drop 8 s)
              else if startswith (py ''-Infinity'') s then Some (JNum (py ''-Infinity''), drop 9 s)
              else None)))"

definition dict :: "(pystr \<times> json) list \<Rightarrow> (pystr \<times> json) list" where
  \<comment> \<open>\<open>dict(pairs)\<close>: a later pair with a key already present replaces its value\<close>
  "dict pairs = foldl (\<lambda>d (k, v). AList.update k v d) [] pairs"

fun scan_once :: "nat \<Rightarrow> pystr \<Rightarrow> (json \<times> pystr) option"
  and JSONObject :: "nat \<Rightarrow> pystr \<Rightarrow> ((pystr \<times> json) list \<times> pystr) option"
  and JSONArray :: "nat \<Rightarrow> pystr \<Rightarrow> (json list \<times> pystr) option"
where
  \<comment> \<open>The first argument bounds the depth of the recursion. \<open>JSONObject\<close> starts at
      a key's opening quote and \<open>JSONArray\<close> at an element; both return the items they
      read.\<close>
  "scan_once 0 s = None"
| "scan_once (Suc n) [] = None"
| "scan_once (Suc n) (c # s) =
     (if c = 0x22 then
        (case scanstring s of None \<Rightarrow> None | Some (str, rest) \<Rightarrow> Some (JStr str, rest))
      else if c = 0x7B then
        (case skip_ws s of
           [] \<Rightarrow> None
         | c1 # s1 \<Rightarrow>
             if c1 = 0x7D then Some (JObj [], s1)
             else (case JSONObject n (c1 # s1) of
                     None \<Rightarrow> None
                   | Some (pairs, rest) \<Rightarrow> Some (JObj (dict pairs), rest)))
      else if c = 0x5B then
        (case skip_ws s of
           [] \<Rightarrow> None
         | c1 # s1 \<Rightarrow>
             if c1 = 0x5D then Some (JArr [], s1)
             else (case JSONArray n (c1 # s1) of
                     None \<Rightarrow> None
                   | Some (values, rest) \<Rightarrow> Some (JArr values, rest)))
      else scan_atom (c # s))"
| "JSONObject 0 s = None"
| "JSONObject (Suc n) [] = None"
| "JSONObject (Suc n) (q # s) =
     (if q \<noteq> 0x22 then None
      else
        (case scanstring s of
           None \<Rightarrow> None
         | Some (key, s1) \<Rightarrow>
             (case skip_ws s1 of
                [] \<Rightarrow> None
              | colon # s2 \<Rightarrow>
                  (if colon \<noteq> 0x3A then None
                   else
                     (case scan_once n (skip_ws s2) of
                        None \<Rightarrow> None
                      | Some (v, s3) \<Rightarrow>
                          (case skip_ws s3 of
                             [] \<Rightarrow> None
                           | c # s4 \<Rightarrow>
                               (if c = 0x7D then Some ([(key, v)], s4)
                                else if c = 0x2C then
                                  (case JSONObject n (skip_ws s4) of
                                     None \<Rightarrow> None
                                   | Some (pairs, rest) \<Rightarrow> Some ((key, v) # pairs, rest))
                                else None)))))))"
| "JSONArray 0 s = None"
| "JSONArray (Suc n) s =
     (case scan_once n s of
        None \<Rightarrow> None
      | Some (v, s1) \<Rightarrow>
          (case skip_ws s1 of
             [] \<Rightarrow> None
           | c # s2 \<Rightarrow>
               if c = 0x5D then Some ([v], s2)
               else if c = 0x2C then
                 (case JSONArray n (skip_ws s2) of
                    None \<Rightarrow> None
                  | Some (values, rest) \<Rightarrow> Some (v # values, rest))
               else None))"

definition loads :: "pystr \<Rightarrow> json option" where
  \<comment> \<open>\<open>json.loads\<close>: one value between optional white space, and nothing after it.
      The recursion is bounded by the length of the text.\<close>
  "loads s =
     (case scan_once (Suc (length s)) (skip_ws s) of
        None \<Rightarrow> None
      | Some (obj, rest) \<Rightarrow> if skip_ws rest = [] then Some obj else None)"

section \<open>The world of the two scripts\<close>

subsection \<open>Values of dynamic type\<close>

datatype exn =
    TypeError
  | KeyError
  | ServiceError pystr

definition contains :: "json \<Rightarrow> pystr \<Rightarrow> exn + bool" where
  \<comment> \<open>\<open>name in store\<close>: a key of a dict, an element of a list, a substring of a string\<close>
  "contains store name =
     (case store of
        JObj d \<Rightarrow> Inr (name \<in> fst ` set d)
      | JArr xs \<Rightarrow> Inr (JStr name \<in> set xs)
      | JStr s \<Rightarrow> Inr (sublist name s)
      | _ \<Rightarrow> Inl TypeError)"

definition getitem :: "json \<Rightarrow> pystr \<Rightarrow> exn + json" where
  \<comment> \<open>\<open>store[name]\<close> for a string \<open>name\<close>\<close>
  "getitem store name =
     (case store of
        JObj d \<Rightarrow> (case map_of d name of Some v \<Rightarrow> Inr v | None \<Rightarrow> Inl KeyError)
      | _ \<Rightarrow> Inl TypeError)"

definition setitem :: "json \<Rightarrow> pystr \<Rightarrow> json \<Rightarrow> exn + json" where
  \<comment> \<open>\<open>store[name] = v\<close>: a dict keeps the position of a key it already has and puts
      a new key last\<close>
  "setitem store name v =
     (case store of
        JObj d \<Rightarrow> Inr (JObj (AList.update name v d))
      | _ \<Rightarrow> Inl TypeError)"

definition truthy :: "pystr option \<Rightarrow> bool" where
  \<comment> \<open>neither \<open>None\<close> nor the empty string\<close>
  "truthy v \<longleftrightarrow> v \<noteq> None \<and> v \<noteq> Some []"

subsection \<open>The registry file\<close>

datatype disk_file =
    Absent
  | Unreadable
  | Content pystr

text \<open>
  \<open>Absent\<close>: \<open>AGENT_STORE_FILE.exists()\<close> is false. \<open>Unreadable\<close>: the path exists and
  \<open>read_text()\<close> raises. \<open>Content t\<close>: \<open>read_text()\<close> returns \<open>t\<close>.
\<close>

subsection \<open>The agent service\<close>

type_synonym ident = pystr

datatype tool_definition = MCPToolDefinition pystr pystr

record McpTool =
  server_label :: pystr
  server_url :: pystr

definition definitions :: "McpTool \<Rightarrow> tool_definition list" where
  "definitions tool = [MCPToolDefinition (server_label tool) (server_url tool)]"

record agent =
  agent_id :: ident

record thread =
  thread_id :: ident

datatype RunStatus =
    QUEUED | IN_PROGRESS | REQUIRES_ACTION | CANCELLING | CANCELLED | FAILED | COMPLETED | EXPIRED

datatype tool_call =
    RequiredMcpToolCall ident
  | RequiredFunctionToolCall ident

datatype required_action =
    SubmitToolApprovalAction "tool_call list"
  | SubmitToolOutputsAction "tool_call list"

datatype ToolApproval = ToolApproval ident bool

record run_error =
  code :: pystr
  message :: pystr

record run =
  run_id :: ident
  status :: RunStatus
  required_action :: "required_action option"
  last_error :: "run_error option"

record message =
  message_id :: ident
  role :: pystr
  text_messages :: "pystr list"

datatype step_details =
    RunStepActivityDetails "pystr list list"
  | OtherStepDetails

text \<open>
  A message carries the values of its text segments in order. Activity details carry,
  for each activity, the keys of its \<open>tools\<close>. A run step is its \<open>step_details\<close>, if it has
  any.
\<close>

type_synonym run_step = "step_details option"

datatype ListSortOrder = ASCENDING | DESCENDING

record 's agents_client =
  create_agent :: "pystr \<Rightarrow> pystr \<Rightarrow> pystr \<Rightarrow> tool_definition list \<Rightarrow> 's \<Rightarrow> (exn + agent) \<times> 's"
  get_agent :: "json \<Rightarrow> 's \<Rightarrow> (exn + agent) \<times> 's"
  threads_create :: "'s \<Rightarrow> (exn + thread) \<times> 's"
  messages_create :: "ident \<Rightarrow> pystr \<Rightarrow> pystr \<Rightarrow> 's \<Rightarrow> (exn + message) \<times> 's"
  messages_list :: "ident \<Rightarrow> ListSortOrder \<Rightarrow> 's \<Rightarrow> (exn + message list) \<times> 's"
  runs_create :: "ident \<Rightarrow> json \<Rightarrow> 's \<Rightarrow> (exn + run) \<times> 's"
  runs_get :: "ident \<Rightarrow> ident \<Rightarrow> 's \<Rightarrow> (exn + run) \<times> 's"
  runs_submit_tool_outputs :: "ident \<Rightarrow> ident \<Rightarrow> ToolApproval list \<Rightarrow> 's \<Rightarrow> (exn + unit) \<times> 's"
  run_steps_list :: "ident \<Rightarrow> ident \<Rightarrow> 's \<Rightarrow> (exn + run_step list) \<times> 's"

text \<open>
  The remote service is a state machine of which the program sees nine operations. Each
  takes the arguments of the call and the state of the service, and gives what the call
  returns or raises and the next state.
\<close>

subsection \<open>What a script does\<close>

datatype request =
    CreateAgent pystr pystr pystr "tool_definition list"
  | GetAgent json
  | ThreadsCreate
  | MessagesCreate ident pystr pystr
  | MessagesList ident ListSortOrder
  | RunsCreate ident json
  | RunsGet ident ident
  | RunsSubmitToolOutputs ident ident "ToolApproval list"
  | RunStepsList ident ident

datatype printed =
    CreatedAgent pystr ident
  | StoredMapping
  | SessionThread ident
  | TypeMessages
  | Newline
  | CreatedMessage ident
  | RunLine ident RunStatus
  | Approving tool_call
  | StatusLine RunStatus
  | RunFailed "run_error option"
  | Assistant pystr
  | ToolUsed pystr
  | Exiting

text \<open>
  The lines a script prints, by the \<open>print\<close> call that writes them:
  \<open>CreatedAgent name id\<close> is \<open>Created agent '{name}' with ID: {id}\<close>,
  \<open>StoredMapping\<close> is \<open>Stored mapping in .agents.json\<close>,
  \<open>SessionThread id\<close> is \<open>Session thread ID: {id}\<close>,
  \<open>TypeMessages\<close> is \<open>Type messages. Use :quit to exit.\<close> and an empty line,
  \<open>Newline\<close> is the empty line after the end of input,
  \<open>CreatedMessage id\<close> is \<open>Created message: {id}\<close>,
  \<open>RunLine id st\<close> is \<open>Run: {id} (status: {st})\<close>,
  \<open>Approving call\<close> is \<open>Approving MCP tool call: {call})\<close>,
  \<open>StatusLine st\<close> is \<open>  Status: {st}\<close>,
  \<open>RunFailed err\<close> is \<open>Run failed: {err}\<close>,
  \<open>Assistant text\<close> is an empty line, \<open>Assistant:\<close>, the text and an empty line,
  \<open>ToolUsed name\<close> is \<open>  (Tool used: {name})\<close>,
  \<open>Exiting\<close> is \<open>Exiting. (Agent not deleted; reuse with another session.)\<close>.
\<close>

datatype event =
    Remote request
  | Sleep nat
  | Prompt
  | Print printed

datatype fatal =
    Usage
  | ModelMissing
  | EndpointMissing
  | StoreNotFound
  | StoreUnreadable
  | NameNotFound pystr
  | AgentNotRetrieved pystr json exn

text \<open>
  The messages of \<open>SystemExit\<close>: \<open>Usage\<close> is the error of \<open>argparse\<close> for a missing
  \<open>--name\<close>; \<open>ModelMissing\<close> is \<open>Model deployment name must be provided via --model or
  MODEL_DEPLOYMENT_NAME env var\<close>; \<open>EndpointMissing\<close> is \<open>PROJECT_ENDPOINT env var is
  required\<close>; \<open>StoreNotFound\<close> is \<open>Agent store .agents.json not found. Run create-agent.py
  first.\<close>; \<open>StoreUnreadable\<close> is \<open>Failed to read .agents.json: {e}\<close>; \<open>NameNotFound name\<close>
  is \<open>Agent name '{name}' not found in .agents.json. Create it first.\<close>;
  \<open>AgentNotRetrieved name id e\<close> is \<open>Failed to retrieve agent '{name}' (id={id}): {e}\<close>.
\<close>

datatype exit =
    Returned
  | SystemExit fatal
  | Uncaught exn

record 's world =
  service :: 's
  store_file :: disk_file
  log :: "event list"

definition emit :: "event \<Rightarrow> 's world \<Rightarrow> 's world" where
  "emit e w = w\<lparr>log := log w @ [e]\<rparr>"

definition remote :: "request \<Rightarrow> ('s \<Rightarrow> 'a \<times> 's) \<Rightarrow> 's world \<Rightarrow> 'a \<times> 's world" where
  \<comment> \<open>a call of the service: it is logged, and the service moves on\<close>
  "remote req op w =
     (let (r, s') = op (service w) in (r, w\<lparr>service := s', log := log w @ [Remote req]\<rparr>))"

type_synonym environ = "pystr \<Rightarrow> pystr option"

record argv =
  flag_name :: "pystr option"
  flag_model :: "pystr option"
  flag_mcp_url :: "pystr option"
  flag_mcp_label :: "pystr option"

text \<open>
  The command line as \<open>argparse\<close> reads it: each flag with its value, if given.
  The environment is \<open>os.environ\<close> after \<open>load_dotenv(override=False)\<close>.
\<close>

section \<open>\<open>create-agent.py\<close>\<close>

record create_args =
  name :: pystr
  model :: "pystr option"
  mcp_url :: pystr
  mcp_label :: pystr

definition get_default :: "pystr option \<Rightarrow> pystr \<Rightarrow> pystr" where
  \<comment> \<open>\<open>os.environ.get(key, default)\<close>, and the default of a flag\<close>
  "get_default v d = (case v of Some x \<Rightarrow> x | None \<Rightarrow> d)"

definition create_parse_args :: "argv \<Rightarrow> environ \<Rightarrow> fatal + create_args" where
  \<comment> \<open>\<open>parse_args\<close>, lines 48 to 54\<close>
  "create_parse_args av env =
     (case flag_name av of
        None \<Rightarrow> Inl Usage
      | Some n \<Rightarrow>
          Inr \<lparr>name = n, model = flag_model av,
               mcp_url = get_default (flag_mcp_url av)
                 (get_default (env (py ''MCP_SERVER_URL''))
                    (py ''https://gitmcp.io/Azure/azure-rest-api-specs'')),
               mcp_label = get_default (flag_mcp_label av)
                 (get_default (env (py ''MCP_SERVER_LABEL'')) (py ''github''))\<rparr>)"

definition create_load_store :: "disk_file \<Rightarrow> json" where
  \<comment> \<open>\<open>load_store\<close>, lines 35 to 41\<close>
  "create_load_store f =
     (case f of
        Absent \<Rightarrow> JObj []
      | Unreadable \<Rightarrow> JObj []
      | Content t \<Rightarrow> (case loads t of Some obj \<Rightarrow> obj | None \<Rightarrow> JObj []))"

definition save_store :: "json \<Rightarrow> disk_file" where
  \<comment> \<open>\<open>save_store\<close>, lines 44 and 45: the file after
      \<open>write_text(json.dumps(store, indent=2, sort_keys=True))\<close>\<close>
  "save_store store = Content (dumps store)"

definition instructions :: pystr where
  \<comment> \<open>the literal of lines 85 to 88\<close>
  "instructions =
     py ''You are a helpful agent that can use MCP tools to assist users. ''
     @ py ''Use the available MCP tools to answer questions and perform tasks.''"

definition create_main :: "'s agents_client \<Rightarrow> argv \<Rightarrow> environ \<Rightarrow> 's world \<Rightarrow> exit \<times> 's world" where
  \<comment> \<open>\<open>main\<close>, lines 57 to 96\<close>
  "create_main client av env w =
     (case create_parse_args av env of
        Inl e \<Rightarrow> (SystemExit e, w)
      | Inr args \<Rightarrow>
          (case (if truthy (model args) then model args else env (py ''MODEL_DEPLOYMENT_NAME'')) of
             None \<Rightarrow> (SystemExit ModelMissing, w)
           | Some deployment \<Rightarrow>
               if deployment = [] then (SystemExit ModelMissing, w)
               else if \<not> truthy (env (py ''PROJECT_ENDPOINT'')) then (SystemExit EndpointMissing, w)
               else
                 (let mcp_tool = \<lparr>server_label = mcp_label args, server_url = mcp_url args\<rparr>
                  in case remote (CreateAgent deployment (name args) instructions (definitions mcp_tool))
                            (create_agent client deployment (name args) instructions
                               (definitions mcp_tool)) w of
                       (Inl e, w1) \<Rightarrow> (Uncaught e, w1)
                     | (Inr agent, w1) \<Rightarrow>
                         (case setitem (create_load_store (store_file w1)) (name args)
                                 (JStr (agent_id agent)) of
                            Inl e \<Rightarrow> (Uncaught e, w1)
                          | Inr store \<Rightarrow>
                              (Returned,
                               emit (Print StoredMapping)
                                 (emit (Print (CreatedAgent (name args) (agent_id agent)))
                                    (w1\<lparr>store_file := save_store store\<rparr>)))))))"

section \<open>\<open>run-agent.py\<close>\<close>

definition run_load_store :: "disk_file \<Rightarrow> fatal + json" where
  \<comment> \<open>\<open>load_store\<close>, lines 34 to 40\<close>
  "run_load_store f =
     (case f of
        Absent \<Rightarrow> Inl StoreNotFound
      | Unreadable \<Rightarrow> Inl StoreUnreadable
      | Content t \<Rightarrow> (case loads t of Some obj \<Rightarrow> Inr obj | None \<Rightarrow> Inl StoreUnreadable))"

definition run_parse_args :: "argv \<Rightarrow> fatal + pystr" where
  \<comment> \<open>\<open>parse_args\<close>, lines 43 to 46: the script knows the flag \<open>--name\<close> only\<close>
  "run_parse_args av =
     (case flag_name av of
        None \<Rightarrow> Inl Usage
      | Some n \<Rightarrow>
          if flag_model av = None \<and> flag_mcp_url av = None \<and> flag_mcp_label av = None
          then Inr n else Inl Usage)"

fun collect_approvals :: "tool_call list \<Rightarrow> 's world \<Rightarrow> ToolApproval list \<times> 's world" where
  \<comment> \<open>lines 115 to 118, the loop over \<open>tool_calls\<close>: each remote-tool call is printed
      and approved, a call of another kind is passed over\<close>
  "collect_approvals [] w = ([], w)"
| "collect_approvals (RequiredMcpToolCall i # tool_calls) w =
     (let (approvals, w1) =
            collect_approvals tool_calls (emit (Print (Approving (RequiredMcpToolCall i))) w)
      in (ToolApproval i True # approvals, w1))"
| "collect_approvals (RequiredFunctionToolCall i # tool_calls) w =
     collect_approvals tool_calls w"

definition handle_approval ::
  "'s agents_client \<Rightarrow> ident \<Rightarrow> run \<Rightarrow> 's world \<Rightarrow> (exn + unit) \<times> 's world" where
  \<comment> \<open>lines 112 to 124\<close>
  "handle_approval client tid r w =
     (if status r = REQUIRES_ACTION then
        (case required_action r of
           Some (SubmitToolApprovalAction tool_calls) \<Rightarrow>
             (let (approvals, w1) = collect_approvals tool_calls w
              in if approvals \<noteq> [] then
                   remote (RunsSubmitToolOutputs tid (run_id r) approvals)
                     (runs_submit_tool_outputs client tid (run_id r) approvals) w1
                 else (Inr (), w1))
         | _ \<Rightarrow> (Inr (), w))
      else (Inr (), w))"

partial_function (option) poll ::
  "'s agents_client \<Rightarrow> ident \<Rightarrow> run \<Rightarrow> 's world \<Rightarrow> ((exn + run) \<times> 's world) option" where
  \<comment> \<open>lines 107 to 125, the \<open>while\<close> loop on the status of the run; \<open>None\<close>: the loop
      does not end\<close>
  "poll client tid r w =
     (if status r \<in> {QUEUED, IN_PROGRESS, REQUIRES_ACTION} then
        (case remote (RunsGet tid (run_id r)) (runs_get client tid (run_id r)) (emit (Sleep 1) w) of
           (Inl e, w1) \<Rightarrow> Some (Inl e, w1)
         | (Inr r1, w1) \<Rightarrow>
             (case handle_approval client tid r1 w1 of
                (Inl e, w2) \<Rightarrow> Some (Inl e, w2)
              | (Inr u, w2) \<Rightarrow> poll client tid r1 (emit (Print (StatusLine (status r1))) w2)))
      else Some (Inr r, w))"

fun first_reply :: "message list \<Rightarrow> pystr option" where
  \<comment> \<open>lines 134 to 137, the loop over the messages, latest first, up to its \<open>break\<close>\<close>
  "first_reply [] = None"
| "first_reply (msg # msgs) =
     (if role msg = py ''assistant'' \<and> text_messages msg \<noteq> []
      then Some (last (text_messages msg))
      else first_reply msgs)"

definition last_assistant :: "message list \<Rightarrow> pystr option" where
  \<comment> \<open>the value of \<open>last_assistant\<close> at line 138, for the messages as listed\<close>
  "last_assistant messages = first_reply (rev messages)"

definition print_reply :: "pystr option \<Rightarrow> 's world \<Rightarrow> 's world" where
  \<comment> \<open>lines 138 and 139, \<open>if last_assistant: print(...)\<close>: neither \<open>None\<close> nor the empty
      string is printed\<close>
  "print_reply reply w =
     (case reply of
        None \<Rightarrow> w
      | Some text \<Rightarrow> if text \<noteq> [] then emit (Print (Assistant text)) w else w)"

definition tool_lines :: "run_step list \<Rightarrow> event list" where
  \<comment> \<open>lines 143 to 148\<close>
  "tool_lines run_steps =
     concat (map (\<lambda>step. case step of
                            Some (RunStepActivityDetails activities) \<Rightarrow>
                              map (\<lambda>fn_name. Print (ToolUsed fn_name)) (concat activities)
                          | _ \<Rightarrow> [])
                 run_steps)"

definition report :: "'s agents_client \<Rightarrow> ident \<Rightarrow> run \<Rightarrow> 's world \<Rightarrow> (exn + unit) \<times> 's world" where
  \<comment> \<open>lines 127 to 148: what a turn does once the run has left the polled statuses\<close>
  "report client tid r w =
     (if status r = FAILED then (Inr (), emit (Print (RunFailed (last_error r))) w)
      else
        (case remote (MessagesList tid ASCENDING) (messages_list client tid ASCENDING) w of
           (Inl e, w1) \<Rightarrow> (Inl e, w1)
         | (Inr messages, w1) \<Rightarrow>
             (case remote (RunStepsList tid (run_id r)) (run_steps_list client tid (run_id r))
                     (print_reply (last_assistant messages) w1) of
                (Inl e, w2) \<Rightarrow> (Inl e, w2)
              | (Inr run_steps, w2) \<Rightarrow> (Inr (), w2\<lparr>log := log w2 @ tool_lines run_steps\<rparr>))))"

definition turn ::
  "'s agents_client \<Rightarrow> ident \<Rightarrow> json \<Rightarrow> pystr \<Rightarrow> 's world \<Rightarrow> ((exn + unit) \<times> 's world) option" where
  \<comment> \<open>lines 93 to 148: one pass of the body of the input loop, from the creation of
      the message on\<close>
  "turn client tid aid user_input w =
     (case remote (MessagesCreate tid (py ''user'') user_input)
             (messages_create client tid (py ''user'') user_input) w of
        (Inl e, w1) \<Rightarrow> Some (Inl e, w1)
      | (Inr msg, w1) \<Rightarrow>
          (case remote (RunsCreate tid aid) (runs_create client tid aid)
                  (emit (Print (CreatedMessage (message_id msg))) w1) of
             (Inl e, w2) \<Rightarrow> Some (Inl e, w2)
           | (Inr r, w2) \<Rightarrow>
               (case poll client tid r (emit (Print (RunLine (run_id r) (status r))) w2) of
                  None \<Rightarrow> None
                | Some (Inl e, w3) \<Rightarrow> Some (Inl e, w3)
                | Some (Inr r1, w3) \<Rightarrow> Some (report client tid r1 w3))))"

definition quit_commands :: "pystr set" where
  "quit_commands = {py '':quit'', py '':q'', py '':exit''}"

fun interact ::
  "(pystr \<Rightarrow> pystr) \<Rightarrow> 's agents_client \<Rightarrow> ident \<Rightarrow> json \<Rightarrow> pystr list \<Rightarrow> 's world
   \<Rightarrow> ((exn + unit) \<times> 's world) option" where
  \<comment> \<open>lines 82 to 148, the \<open>while True\<close> loop over the lines of the standard input;
      after the last line \<open>input\<close> raises \<open>EOFError\<close>. The parameter \<open>ul\<close> is the one of
      \<open>lower\<close>. \<open>None\<close>: a run is polled for ever.\<close>
  "interact ul client tid aid [] w = Some (Inr (), emit (Print Newline) (emit Prompt w))"
| "interact ul client tid aid (line # lines) w =
     (let user_input = strip line in
      if user_input = [] then interact ul client tid aid lines (emit Prompt w)
      else if lower ul user_input \<in> quit_commands then Some (Inr (), emit Prompt w)
      else
        (case turn client tid aid user_input (emit Prompt w) of
           None \<Rightarrow> None
         | Some (Inl e, w1) \<Rightarrow> Some (Inl e, w1)
         | Some (Inr u, w1) \<Rightarrow> interact ul client tid aid lines w1))"

definition run_main ::
  "(pystr \<Rightarrow> pystr) \<Rightarrow> 's agents_client \<Rightarrow> argv \<Rightarrow> environ \<Rightarrow> pystr list \<Rightarrow> 's world
   \<Rightarrow> (exit \<times> 's world) option" where
  \<comment> \<open>\<open>main\<close>, lines 49 to 150\<close>
  "run_main ul client av env stdin w =
     (case run_parse_args av of
        Inl e \<Rightarrow> Some (SystemExit e, w)
      | Inr agent_name \<Rightarrow>
          (case run_load_store (store_file w) of
             Inl e \<Rightarrow> Some (SystemExit e, w)
           | Inr store \<Rightarrow>
               (case contains store agent_name of
                  Inl e \<Rightarrow> Some (Uncaught e, w)
                | Inr found \<Rightarrow>
                    if \<not> found then Some (SystemExit (NameNotFound agent_name), w)
                    else
                      (case getitem store agent_name of
                         Inl e \<Rightarrow> Some (Uncaught e, w)
                       | Inr aid \<Rightarrow>
                           if \<not> truthy (env (py ''PROJECT_ENDPOINT''))
                           then Some (SystemExit EndpointMissing, w)
                           else
                             (case remote (GetAgent aid) (get_agent client aid) w of
                                (Inl e, w1) \<Rightarrow> Some (SystemExit (AgentNotRetrieved agent_name aid e), w1)
                              | (Inr agent, w1) \<Rightarrow>
                                  (case remote ThreadsCreate (threads_create client) w1 of
                                     (Inl e, w2) \<Rightarrow> Some (Uncaught e, w2)
                                   | (Inr thread, w2) \<Rightarrow>
                                       (case interact ul client (thread_id thread) aid stdin
                                               (emit (Print TypeMessages)
                                                  (emit (Print (SessionThread (thread_id thread))) w2)) of
                                          None \<Rightarrow> None
                                        | Some (Inl e, w3) \<Rightarrow> Some (Uncaught e, w3)
                                        | Some (Inr u, w3) \<Rightarrow>
                                            Some (Returned, emit (Print Exiting) w3))))))))"

section \<open>Reading a log\<close>

fun requests :: "event list \<Rightarrow> request list" where
  \<comment> \<open>the remote calls of a log, in order\<close>
  "requests [] = []"
| "requests (Remote req # es) = req # requests es"
| "requests (e # es) = requests es"

fun polling_event :: "event \<Rightarrow> bool" where
  \<comment> \<open>what the polling loop can add to a log\<close>
  "polling_event (Sleep n) = True"
| "polling_event (Remote (RunsGet tid rid)) = True"
| "polling_event (Remote (RunsSubmitToolOutputs tid rid approvals)) = True"
| "polling_event (Print (Approving call)) = True"
| "polling_event (Print (StatusLine st)) = True"
| "polling_event e = False"

section \<open>A scripted service\<close>

text \<open>
  A test double for the service. It hands out the runs of a script, one for each
  \<open>runs.create\<close> and \<open>runs.get\<close>, and raises when the script is used up. The thread has
  fixed messages and the run fixed steps; the other operations succeed with fixed
  answers.
\<close>

record scripted_state =
  script :: "run list"
  thread_messages :: "message list"
  steps :: "run_step list"

definition next_run :: "scripted_state \<Rightarrow> (exn + run) \<times> scripted_state" where
  "next_run s =
     (case script s of
        [] \<Rightarrow> (Inl (ServiceError (py ''script used up'')), s)
      | r # rs \<Rightarrow> (Inr r, s\<lparr>script := rs\<rparr>))"

definition scripted :: "scripted_state agents_client" where
  "scripted =
     \<lparr>create_agent = (\<lambda>model name instr tools s. (Inr \<lparr>agent_id = py ''asst_1''\<rparr>, s)),
      get_agent = (\<lambda>aid s. (Inr \<lparr>agent_id = py ''asst_1''\<rparr>, s)),
      threads_create = (\<lambda>s. (Inr \<lparr>thread_id = py ''thread_1''\<rparr>, s)),
      messages_create = (\<lambda>tid role content s.
         (Inr \<lparr>message_id = py ''msg_1'', role = role, text_messages = [content]\<rparr>, s)),
      messages_list = (\<lambda>tid order s. (Inr (thread_messages s), s)),
      runs_create = (\<lambda>tid aid s. next_run s),
      runs_get = (\<lambda>tid rid s. next_run s),
      runs_submit_tool_outputs = (\<lambda>tid rid approvals s. (Inr (), s)),
      run_steps_list = (\<lambda>tid rid s. (Inr (steps s), s))\<rparr>"

definition a_run :: "RunStatus \<Rightarrow> run" where
  "a_run st = \<lparr>run_id = py ''run_1'', status = st, required_action = None, last_error = None\<rparr>"

definition a_world :: "run list \<Rightarrow> message list \<Rightarrow> disk_file \<Rightarrow> scripted_state world" where
  "a_world rs msgs f =
     \<lparr>service = \<lparr>script = rs, thread_messages = msgs, steps = []\<rparr>, store_file = f, log = []\<rparr>"

definition an_argv :: "pystr \<Rightarrow> argv" where
  "an_argv n = \<lparr>flag_name = Some n, flag_model = None, flag_mcp_url = None, flag_mcp_label = None\<rparr>"

definition an_environ :: environ where
  "an_environ =
     [py ''PROJECT_ENDPOINT'' \<mapsto> py ''https://example.invalid'',
      py ''MODEL_DEPLOYMENT_NAME'' \<mapsto> py ''gpt-4o'']"

definition a_reply :: "pystr list \<Rightarrow> message" where
  "a_reply texts = \<lparr>message_id = py ''msg_2'', role = py ''assistant'', text_messages = texts\<rparr>"

definition a_question :: "pystr \<Rightarrow> message" where
  "a_question text = \<lparr>message_id = py ''msg_1'', role = py ''user'', text_messages = [text]\<rparr>"

definition an_approval_request :: run where
  "an_approval_request =
     (a_run REQUIRES_ACTION)
       \<lparr>required_action := Some (SubmitToolApprovalAction [RequiredMcpToolCall (py ''call_1'')])\<rparr>"

definition a_failure :: run where
  "a_failure =
     (a_run FAILED)\<lparr>last_error := Some \<lparr>code = py ''server_error'', message = py ''boom''\<rparr>\<rparr>"

section \<open>Mappings of strings\<close>

definition plain_str :: "pystr \<Rightarrow> bool" where
  \<comment> \<open>a string in which no high surrogate is followed by a low surrogate\<close>
  "plain_str s \<longleftrightarrow> wellformed s \<and> surrogate_pair_free s"

fun str_value :: "(pystr \<Rightarrow> bool) \<Rightarrow> json \<Rightarrow> bool" where
  "str_value P (JStr s) = P s"
| "str_value P v = False"

definition str_dict :: "(pystr \<Rightarrow> bool) \<Rightarrow> json \<Rightarrow> bool" where
  \<comment> \<open>a \<open>Dict[str, str]\<close> all of whose keys and values satisfy \<open>P\<close>; the keys of a dict
      are distinct\<close>
  "str_dict P store \<longleftrightarrow>
     (case store of
        JObj d \<Rightarrow> distinct (map fst d) \<and> (\<forall>(k, v) \<in> set d. P k \<and> str_value P v)
      | _ \<Rightarrow> False)"

section \<open>Logs\<close>

lemma requests_append: "requests (xs @ ys) = requests xs @ requests ys"
  by (induction xs rule: requests.induct) auto

lemma remote_log: "remote req op w = (r, w') \<Longrightarrow> log w' = log w @ [Remote req]"
  by (auto simp: remote_def split: prod.splits)

section \<open>The provisioner's request\<close>

lemma demo_create_returns:
  "fst (create_main scripted (an_argv (py ''demo'')) an_environ (a_world [] [] Absent)) = Returned"
  by (simp add: create_main_def create_parse_args_def an_argv_def an_environ_def a_world_def
      truthy_def py_def get_default_def remote_def scripted_def create_load_store_def setitem_def)

text \<open>
  C8, as the spec words it, fails: in the run below the provisioner succeeds, and the one
  request it sends is not the request with the prompt \<open>You are a helpful agent that can
  use the available tools to answer questions and perform tasks\<close>.
\<close>

theorem create_main_instructions_counterexample:
  "fst (create_main scripted (an_argv (py ''demo'')) an_environ (a_world [] [] Absent)) = Returned \<and>
   requests (log (snd (create_main scripted (an_argv (py ''demo'')) an_environ (a_world [] [] Absent)))) \<noteq>
     [CreateAgent (py ''gpt-4o'') (py ''demo'')
        (py ''You are a helpful agent that can use the available tools to answer questions and perform tasks'')
        [MCPToolDefinition (py ''github'') (py ''https://gitmcp.io/Azure/azure-rest-api-specs'')]]"
  by (simp add: create_main_def create_parse_args_def an_argv_def an_environ_def a_world_def
      truthy_def py_def get_default_def remote_def scripted_def create_load_store_def setitem_def
      emit_def instructions_def definitions_def)

text \<open>
  C8 (amended): every successful provisioning sends exactly one request to the service,
  the creation of an agent with the model given by \<open>--model\<close> or else by
  \<open>MODEL_DEPLOYMENT_NAME\<close>, the given name, the fixed instructions \<open>You are a helpful
  agent that can use MCP tools to assist users. Use the available MCP tools to answer
  questions and perform tasks.\<close> and the tool definitions of the tool descriptor built
  from the label and the URL.
\<close>

theorem create_main_instructions:
  assumes "create_main client av env w = (Returned, w')"
    and "create_parse_args av env = Inr args"
  shows "\<exists>deployment.
           (if truthy (model args) then model args else env (py ''MODEL_DEPLOYMENT_NAME''))
             = Some deployment \<and>
           requests (log w') = requests (log w) @
             [CreateAgent deployment (name args)
                (py ''You are a helpful agent that can use MCP tools to assist users. Use the available MCP tools to answer questions and perform tasks.'')
                (definitions \<lparr>server_label = mcp_label args, server_url = mcp_url args\<rparr>)]"
  using assms
  by (auto simp: create_main_def Let_def emit_def requests_append instructions_def py_def
      split: option.splits if_splits prod.splits sum.splits dest!: remote_log)

text \<open>The theorem at a run with the scripted service, the registry file absent.\<close>

theorem create_main_instructions_witness:
  "fst (create_main scripted (an_argv (py ''demo'')) an_environ (a_world [] [] Absent)) = Returned \<and>
   requests (log (snd (create_main scripted (an_argv (py ''demo'')) an_environ (a_world [] [] Absent)))) =
     [CreateAgent (py ''gpt-4o'') (py ''demo'')
        (py ''You are a helpful agent that can use MCP tools to assist users. Use the available MCP tools to answer questions and perform tasks.'')
        [MCPToolDefinition (py ''github'') (py ''https://gitmcp.io/Azure/azure-rest-api-specs'')]]"
proof -
  let ?res = "create_main scripted (an_argv (py ''demo'')) an_environ (a_world [] [] Absent)"
  have ret: "?res = (Returned, snd ?res)"
    using demo_create_returns by (simp add: prod_eq_iff)
  have args: "create_parse_args (an_argv (py ''demo'')) an_environ =
      Inr \<lparr>name = py ''demo'', model = None,
           mcp_url = py ''https://gitmcp.io/Azure/azure-rest-api-specs'', mcp_label = py ''github''\<rparr>"
    by (simp add: create_parse_args_def an_argv_def an_environ_def get_default_def py_def)
  from create_main_instructions [OF ret args] show ?thesis
    using demo_create_returns
    by (simp add: truthy_def an_environ_def a_world_def definitions_def py_def)
qed

section \<open>\<open>json.loads\<close> reads what \<open>json.dumps\<close> writes\<close>

lemma hex_value_hex_digit: "d < 16 \<Longrightarrow> hex_value (hex_digit d) = Some d"
  by (auto simp: hex_value_def hex_digit_def)

lemma hex4_sum:
  fixes n :: nat
  shows "n div 4096 mod 16 * 4096 + n div 256 mod 16 * 256 + n div 16 mod 16 * 16 + n mod 16 = n mod 65536"
proof -
  have a: "n mod 65536 = n mod 4096 + 4096 * (n div 4096 mod 16)"
    using mod_mult2_eq [of n 4096 16] by simp
  have b: "n mod 4096 = n mod 256 + 256 * (n div 256 mod 16)"
    using mod_mult2_eq [of n 256 16] by simp
  have c: "n mod 256 = n mod 16 + 16 * (n div 16 mod 16)"
    using mod_mult2_eq [of n 16 16] by simp
  show ?thesis using a b c by simp
qed

lemma decode_hex4:
  assumes "n < 0x10000"
  shows "decode_uXXXX (hex_digit (n div 4096 mod 16)) (hex_digit (n div 256 mod 16))
           (hex_digit (n div 16 mod 16)) (hex_digit (n mod 16)) = Some n"
  using assms hex4_sum [of n]
  by (simp add: decode_uXXXX_def hex_value_hex_digit)

lemma scanstring_plain:
  "0x20 \<le> c \<Longrightarrow> c \<noteq> 0x22 \<Longrightarrow> c \<noteq> 0x5C \<Longrightarrow>
   scanstring (c # t) =
     (case scanstring t of None \<Rightarrow> None | Some (chunk, rest) \<Rightarrow> Some (c # chunk, rest))"
  by simp

lemma scanstring_backslash:
  "backslash e = Some ch \<Longrightarrow> e \<noteq> 0x75 \<Longrightarrow>
   scanstring (0x5C # e # t) =
     (case scanstring t of None \<Rightarrow> None | Some (chunk, rest) \<Rightarrow> Some (ch # chunk, rest))"
  by simp

lemma scanstring_u:
  "decode_uXXXX a b c d = Some uni \<Longrightarrow> \<not> is_high_surrogate uni \<or> low_half t = None \<Longrightarrow>
   scanstring (0x5C # 0x75 # a # b # c # d # t) =
     (case scanstring t of None \<Rightarrow> None | Some (chunk, rest) \<Rightarrow> Some (uni # chunk, rest))"
  by (cases "is_high_surrogate uni") simp_all

lemma scanstring_pair:
  "decode_uXXXX a b c d = Some uni \<Longrightarrow> is_high_surrogate uni \<Longrightarrow>
   decode_uXXXX a' b' c' d' = Some uni2 \<Longrightarrow> is_low_surrogate uni2 \<Longrightarrow>
   scanstring (0x5C # 0x75 # a # b # c # d # 0x5C # 0x75 # a' # b' # c' # d' # t) =
     (case scanstring t of None \<Rightarrow> None
      | Some (chunk, rest) \<Rightarrow> Some ((0x10000 + (uni - 0xD800) * 1024 + (uni2 - 0xDC00)) # chunk, rest))"
  by (simp add: low_half_def)

declare scanstring.simps [simp del]

lemma hex4_decode:
  assumes "n < 0x10000"
  obtains a b c d where "hex4 n = [a, b, c, d]" and "decode_uXXXX a b c d = Some n"
  using assms decode_hex4 [of n] by (simp add: hex4_def)

lemma low_half_quote: "low_half (0x22 # t) = None"
  by (simp add: low_half_def split: list.splits)

lemma low_half_u:
  assumes "n < 0x10000" "\<not> is_low_surrogate n"
  shows "low_half (0x5C # 0x75 # hex4 n @ t) = None"
proof -
  from assms(1) obtain a b c d where "hex4 n = [a, b, c, d]" "decode_uXXXX a b c d = Some n"
    by (rule hex4_decode)
  with assms(2) show ?thesis by (simp add: low_half_def)
qed

lemma low_half_encode:
  assumes "c < 0x110000" "\<not> is_low_surrogate c"
  shows "low_half (encode_char c @ t) = None"
proof (cases "c < 0x10000")
  case True
  then show ?thesis
    using assms low_half_u [of c t]
    by (auto simp: encode_char_def py_def low_half_def split: list.splits)
next
  case False
  define n where "n = c - 0x10000"
  have "0xD800 + n div 1024 mod 1024 < (0x10000::nat)" by simp
  moreover have "\<not> is_low_surrogate (0xD800 + n div 1024 mod 1024)"
    by (simp add: is_low_surrogate_def)
  ultimately have "low_half (0x5C # 0x75 # hex4 (0xD800 + n div 1024 mod 1024) @ u) = None" for u
    by (rule low_half_u)
  with False show ?thesis
    by (simp add: encode_char_def py_def Let_def n_def)
qed

lemma scanstring_u4:
  assumes "n < 0x10000" "\<not> is_high_surrogate n \<or> low_half t = None"
  shows "scanstring (0x5C # 0x75 # hex4 n @ t) =
     (case scanstring t of None \<Rightarrow> None | Some (chunk, rest) \<Rightarrow> Some (n # chunk, rest))"
proof -
  from assms(1) obtain a b c d where h: "hex4 n = [a, b, c, d]" "decode_uXXXX a b c d = Some n"
    by (rule hex4_decode)
  from scanstring_u [OF h(2) assms(2)] h(1) show ?thesis by simp
qed

lemma scanstring_pair4:
  assumes "hi < 0x10000" "is_high_surrogate hi" "lo < 0x10000" "is_low_surrogate lo"
  shows "scanstring (0x5C # 0x75 # hex4 hi @ 0x5C # 0x75 # hex4 lo @ t) =
     (case scanstring t of None \<Rightarrow> None
      | Some (chunk, rest) \<Rightarrow> Some ((0x10000 + (hi - 0xD800) * 1024 + (lo - 0xDC00)) # chunk, rest))"
proof -
  from assms(1) obtain a b c d where h: "hex4 hi = [a, b, c, d]" "decode_uXXXX a b c d = Some hi"
    by (rule hex4_decode)
  from assms(3) obtain a' b' c' d' where l: "hex4 lo = [a', b', c', d']" "decode_uXXXX a' b' c' d' = Some lo"
    by (rule hex4_decode)
  from scanstring_pair [OF h(2) assms(2) l(2) assms(4)] h(1) l(1) show ?thesis by simp
qed

lemma scanstring_encode_char:
  assumes c: "c < 0x110000" and nxt: "is_high_surrogate c \<longrightarrow> low_half t = None"
  shows "scanstring (encode_char c @ t) =
     (case scanstring t of None \<Rightarrow> None | Some (chunk, rest) \<Rightarrow> Some (c # chunk, rest))"
proof -
  consider (special) "c \<in> {0x5C, 0x22, 0x08, 0x0C, 0x0A, 0x0D, 0x09}"
    | (plain) "0x20 \<le> c" "c \<le> 0x7E" "c \<noteq> 0x5C" "c \<noteq> 0x22"
    | (bmp) "c \<notin> {0x5C, 0x22, 0x08, 0x0C, 0x0A, 0x0D, 0x09}" "\<not> (0x20 \<le> c \<and> c \<le> 0x7E)" "c < 0x10000"
    | (astral) "0x10000 \<le> c"
    by fastforce
  then show ?thesis
  proof cases
    case special
    then show ?thesis
      by (auto simp: encode_char_def py_def scanstring_backslash backslash_def)
  next
    case plain
    then show ?thesis
      by (simp add: encode_char_def scanstring_plain)
  next
    case bmp
    from bmp(3) nxt have "scanstring (0x5C # 0x75 # hex4 c @ t) =
        (case scanstring t of None \<Rightarrow> None | Some (chunk, rest) \<Rightarrow> Some (c # chunk, rest))"
      by (intro scanstring_u4) auto
    with bmp show ?thesis
      by (auto simp: encode_char_def py_def)
  next
    case astral
    define n where "n = c - 0x10000"
    define hi where "hi = 0xD800 + n div 1024 mod 1024"
    define lo where "lo = 0xDC00 + n mod 1024"
    have n: "n < 0x100000" using c astral by (simp add: n_def)
    have enc: "encode_char c @ t = 0x5C # 0x75 # hex4 hi @ 0x5C # 0x75 # hex4 lo @ t"
      using astral by (simp add: encode_char_def py_def Let_def n_def hi_def lo_def)
    have scan: "scanstring (0x5C # 0x75 # hex4 hi @ 0x5C # 0x75 # hex4 lo @ t) =
     (case scanstring t of None \<Rightarrow> None
      | Some (chunk, rest) \<Rightarrow> Some ((0x10000 + (hi - 0xD800) * 1024 + (lo - 0xDC00)) # chunk, rest))"
      by (rule scanstring_pair4) (simp_all add: hi_def lo_def is_high_surrogate_def is_low_surrogate_def)
    have val: "0x10000 + (hi - 0xD800) * 1024 + (lo - 0xDC00) = c"
    proof -
      have "n div 1024 mod 1024 = n div 1024" using n by simp
      then have "(hi - 0xD800) * 1024 + (lo - 0xDC00) = n"
        by (simp add: hi_def lo_def)
      then show ?thesis using astral by (simp add: n_def)
    qed
    show ?thesis unfolding enc scan val ..
  qed
qed

lemma scanstring_quote: "scanstring (0x22 # rest) = Some ([], rest)"
  by (simp add: scanstring.simps)

lemma scanstring_encode:
  "wellformed s \<Longrightarrow> surrogate_pair_free s \<Longrightarrow>
   scanstring (concat (map encode_char s) @ 0x22 # rest) = Some (s, rest)"
proof (induction s)
  case Nil
  show ?case by (simp add: scanstring_quote)
next
  case (Cons c s)
  let ?t = "concat (map encode_char s) @ 0x22 # rest"
  from Cons.prems have c: "c < 0x110000" and wf: "wellformed s"
    by (simp_all add: wellformed_def)
  from Cons.prems(2) have spf: "surrogate_pair_free s"
    by (cases s) simp_all
  have "is_high_surrogate c \<longrightarrow> low_half ?t = None"
  proof (cases s)
    case Nil
    then show ?thesis by (simp add: low_half_quote)
  next
    case (Cons c' s')
    show ?thesis
    proof
      assume "is_high_surrogate c"
      with Cons.prems(2) Cons have "\<not> is_low_surrogate c'" by simp
      moreover from wf Cons have "c' < 0x110000" by (simp add: wellformed_def)
      ultimately show "low_half ?t = None"
        using Cons by (simp add: low_half_encode)
    qed
  qed
  with c have "scanstring (encode_char c @ ?t) =
      (case scanstring ?t of None \<Rightarrow> None | Some (chunk, rest) \<Rightarrow> Some (c # chunk, rest))"
    by (rule scanstring_encode_char)
  with Cons.IH [OF wf spf] show ?case by simp
qed

lemma skip_ws_stop: "\<not> is_ws c \<Longrightarrow> skip_ws (c # t) = c # t"
  by (simp add: skip_ws_def)

lemma skip_ws_indent: "\<not> is_ws c \<Longrightarrow> skip_ws (newline_indent level @ c # t) = c # t"
  by (simp add: skip_ws_def newline_indent_def is_ws_def dropWhile_append3)

lemma skip_ws_space: "skip_ws (0x20 # t) = skip_ws t"
  by (simp add: skip_ws_def is_ws_def)

lemma scan_once_string:
  assumes "plain_str s" "0 < n"
  shows "scan_once n (encode_basestring_ascii s @ tail) = Some (JStr s, tail)"
proof -
  from assms(2) obtain m where "n = Suc m" by (cases n) auto
  with assms(1) show ?thesis
    by (simp add: encode_basestring_ascii_def plain_str_def scanstring_encode)
qed

lemma JSONObject_member:
  assumes "plain_str k" "plain_str s" "0 < n"
  shows "JSONObject (Suc n) (encode_basestring_ascii k @ py '': '' @ encode_basestring_ascii s @ tail) =
     (case skip_ws tail of
        [] \<Rightarrow> None
      | c # s4 \<Rightarrow>
          if c = 0x7D then Some ([(k, JStr s)], s4)
          else if c = 0x2C then
            (case JSONObject n (skip_ws s4) of
               None \<Rightarrow> None
             | Some (pairs, rest) \<Rightarrow> Some ((k, JStr s) # pairs, rest))
          else None)"
proof -
  have key: "scanstring (concat (map encode_char k) @ 0x22 # py '': '' @ encode_basestring_ascii s @ tail)
      = Some (k, py '': '' @ encode_basestring_ascii s @ tail)"
    using assms(1) by (simp add: plain_str_def scanstring_encode)
  have colon: "skip_ws (py '': '' @ encode_basestring_ascii s @ tail) = 0x3A # 0x20 # encode_basestring_ascii s @ tail"
    by (simp add: py_def skip_ws_def is_ws_def)
  have sp: "skip_ws (0x20 # encode_basestring_ascii s @ tail) = encode_basestring_ascii s @ tail"
    by (simp add: skip_ws_def is_ws_def encode_basestring_ascii_def)
  show ?thesis
    using scan_once_string [OF assms(2,3), of tail]
    by (simp add: encode_basestring_ascii_def [of k] key colon sp)
qed

lemma str_value_cases:
  assumes "str_value P v"
  obtains s where "v = JStr s" "P s"
  using assms by (cases v) auto

lemma join_head: "\<exists>t. join sep ((c # x) # xs) @ u = c # t"
  by (cases xs) simp_all

lemma JSONObject_items:
  assumes "d \<noteq> []" and "\<forall>(k, v) \<in> set d. plain_str k \<and> str_value plain_str v"
    and "length d < fuel"
  shows "JSONObject fuel
           (join (py '','' @ newline_indent (Suc 0))
              (map (\<lambda>(k, v). encode_basestring_ascii k @ py '': '' @ iterencode (Suc 0) v) d)
            @ newline_indent 0 @ 0x7D # rest) = Some (d, rest)"
  using assms
proof (induction d arbitrary: fuel)
  case Nil
  then show ?case by simp
next
  case (Cons kv d)
  obtain k v where kv: "kv = (k, v)" by (cases kv)
  with Cons.prems(2) have k: "plain_str k" and "str_value plain_str v" by auto
  then obtain s where v: "v = JStr s" and s: "plain_str s" by (auto elim: str_value_cases)
  from Cons.prems(3) obtain n where fuel: "fuel = Suc n" and n: "length d < n" "0 < n"
    by (cases fuel) auto
  show ?case
  proof (cases d)
    case Nil
    have "skip_ws (newline_indent 0 @ 0x7D # rest) = 0x7D # rest"
      by (rule skip_ws_indent) (simp add: is_ws_def)
    with JSONObject_member [OF k s n(2), of "newline_indent 0 @ 0x7D # rest"]
    show ?thesis by (simp add: Nil kv v fuel)
  next
    case (Cons kv' d')
    let ?items = "join (py '','' @ newline_indent (Suc 0))
              (map (\<lambda>(k, v). encode_basestring_ascii k @ py '': '' @ iterencode (Suc 0) v) d)
            @ newline_indent 0 @ 0x7D # rest"
    have IH: "JSONObject n ?items = Some (d, rest)"
      using Cons.IH [OF _ _ n(1)] Cons Cons.prems(2) by simp
    obtain t where items: "?items = 0x22 # t"
      using join_head [of "py '','' @ newline_indent (Suc 0)" "0x22"]
      by (cases kv') (fastforce simp: Cons encode_basestring_ascii_def)
    have "skip_ws (py '','' @ newline_indent (Suc 0) @ ?items) = 0x2C # newline_indent (Suc 0) @ ?items"
      by (simp add: py_def skip_ws_def is_ws_def)
    moreover have "skip_ws (newline_indent (Suc 0) @ ?items) = ?items"
      unfolding items by (rule skip_ws_indent) (simp add: is_ws_def)
    ultimately show ?thesis
      using JSONObject_member [OF k s n(2), of "py '','' @ newline_indent (Suc 0) @ ?items"] IH
      by (simp add: Cons kv v fuel)
  qed
qed

lemma update_fresh: "k \<notin> fst ` set al \<Longrightarrow> AList.update k v al = al @ [(k, v)]"
  by (induction al) auto

lemma foldl_update_distinct:
  "distinct (map fst (acc @ ps)) \<Longrightarrow>
   foldl (\<lambda>d (k, v). AList.update k v d) acc ps = acc @ ps"
proof (induction ps arbitrary: acc)
  case Nil
  then show ?case by simp
next
  case (Cons p ps)
  obtain k v where p: "p = (k, v)" by (cases p)
  from Cons.prems p have "k \<notin> fst ` set acc" by auto
  then have "AList.update k v acc = acc @ [(k, v)]" by (rule update_fresh)
  moreover from Cons.prems p have "distinct (map fst ((acc @ [(k, v)]) @ ps))" by simp
  ultimately show ?case using Cons.IH [of "acc @ [(k, v)]"] p by simp
qed

lemma dict_distinct: "distinct (map fst ps) \<Longrightarrow> dict ps = ps"
  using foldl_update_distinct [of "[]" ps] by (simp add: dict_def)

lemma distinct_keys_sort: "distinct (map fst (sort_key fst d)) = distinct (map fst d)"
  by (simp add: distinct_map)

lemma length_join: "\<forall>x \<in> set xs. x \<noteq> [] \<Longrightarrow> length xs \<le> length (join sep xs)"
proof (induction sep xs rule: join.induct)
  case (3 sep x y ys)
  then obtain c x' where "x = c # x'" by (cases x) auto
  moreover from 3 have "length (y # ys) \<le> length (join sep (y # ys))" by simp
  ultimately show ?case by simp
qed (simp_all add: Suc_le_eq)

lemma loads_dumps:
  assumes "str_dict plain_str (JObj d)"
  shows "loads (dumps (JObj d)) = Some (JObj (sort_key fst d))"
proof (cases "d = []")
  case True
  then show ?thesis
    by (simp add: loads_def dumps_def py_def skip_ws_def is_ws_def)
next
  case False
  let ?d = "sort_key fst d"
  let ?r = "\<lambda>(k, v). encode_basestring_ascii k @ py '': '' @ iterencode (Suc 0) v"
  let ?items = "join (py '','' @ newline_indent (Suc 0)) (map ?r ?d) @ newline_indent 0 @ [0x7D]"
  from False have ne: "?d \<noteq> []"
    by (metis length_0_conv length_sort)
  from assms have ok: "\<forall>(k, v) \<in> set ?d. plain_str k \<and> str_value plain_str v"
    and dist: "distinct (map fst ?d)"
    by (simp_all add: str_dict_def distinct_keys_sort)
  have shape: "dumps (JObj d) = 0x7B # newline_indent (Suc 0) @ ?items"
    using False by (simp add: dumps_def py_def)
  have "\<forall>x \<in> set (map ?r ?d). x \<noteq> []"
    by (auto simp: encode_basestring_ascii_def)
  then have "length (map ?r ?d) \<le> length (join (py '','' @ newline_indent (Suc 0)) (map ?r ?d))"
    by (rule length_join)
  then have len: "length ?d < length (dumps (JObj d))"
    unfolding shape by simp
  obtain t where items: "?items = 0x22 # t"
    using ne join_head [of "py '','' @ newline_indent (Suc 0)" "0x22"]
    by (cases ?d) (fastforce simp: encode_basestring_ascii_def)+
  have parsed: "JSONObject (length (dumps (JObj d))) (0x22 # t) = Some (?d, [])"
    using JSONObject_items [OF ne ok len, of "[]"] items by simp
  have ws: "skip_ws (newline_indent (Suc 0) @ 0x22 # t) = 0x22 # t"
    by (rule skip_ws_indent) (simp add: is_ws_def)
  have start: "skip_ws (dumps (JObj d)) = 0x7B # newline_indent (Suc 0) @ 0x22 # t"
    using shape items by (simp add: skip_ws_def is_ws_def)
  have scan: "scan_once (Suc (length (dumps (JObj d)))) (0x7B # newline_indent (Suc 0) @ 0x22 # t)
      = Some (JObj (dict ?d), [])"
    by (simp add: ws parsed)
  show ?thesis
    unfolding loads_def start scan by (simp add: dict_distinct [OF dist] skip_ws_def)
qed

lemma newline_indent_0: "newline_indent 0 = [0x0A]"
  by (simp add: newline_indent_def)

lemma newline_indent_1: "newline_indent (Suc 0) = [0x0A, 0x20, 0x20]"
  by (simp add: newline_indent_def numeral_2_eq_2)

lemmas json_eval = loads_def dumps_def py_def encode_basestring_ascii_def encode_char_def hex4_def
  hex_digit_def newline_indent_0 newline_indent_1 skip_ws_def is_ws_def decode_uXXXX_def hex_value_def
  low_half_def is_high_surrogate_def is_low_surrogate_def backslash_def dict_def scanstring.simps

section \<open>The registry round trip\<close>

lemma map_of_sort_key: "distinct (map fst d) \<Longrightarrow> map_of (sort_key fst d) = map_of d"
  by (rule map_of_inject_set [THEN iffD2]) (simp_all add: distinct_keys_sort)

text \<open>
  C3, as the spec words it, fails. The mapping below is a non-empty mapping of string to
  string; its one value is a high surrogate followed by a low surrogate. \<open>json.dumps\<close>
  writes the two as two \<open>u\<close> escapes, and \<open>json.loads\<close> reads two such escapes as the one
  character \<open>U+1F600\<close>: what is loaded is another mapping.
\<close>

theorem save_load_counterexample:
  "str_dict wellformed (JObj [(py ''a'', JStr [0xD83D, 0xDE00])]) \<and>
   map_of [(py ''a'', JStr [0x1F600])] (py ''a'') \<noteq>
     map_of [(py ''a'', JStr [0xD83D, 0xDE00])] (py ''a'') \<and>
   create_load_store (save_store (JObj [(py ''a'', JStr [0xD83D, 0xDE00])])) =
     JObj [(py ''a'', JStr [0x1F600])] \<and>
   run_load_store (save_store (JObj [(py ''a'', JStr [0xD83D, 0xDE00])])) =
     Inr (JObj [(py ''a'', JStr [0x1F600])])"
proof -
  have "loads (dumps (JObj [(py ''a'', JStr [0xD83D, 0xDE00])])) = Some (JObj [(py ''a'', JStr [0x1F600])])"
    by (simp add: json_eval)
  then show ?thesis
    by (simp add: create_load_store_def run_load_store_def save_store_def str_dict_def wellformed_def py_def)
qed

text \<open>
  C3 (amended): for every mapping of string to string in which no key and no value has a
  high surrogate immediately followed by a low surrogate, saving it with \<open>save_store\<close> and
  loading it back, with the \<open>load_store\<close> of either script, gives a mapping with the same
  keys and the same value at each key (its entries come back in the order of their keys).
\<close>

theorem save_load_roundtrip:
  assumes "str_dict plain_str (JObj d)"
  shows "create_load_store (save_store (JObj d)) = JObj (sort_key fst d) \<and>
         run_load_store (save_store (JObj d)) = Inr (JObj (sort_key fst d)) \<and>
         map_of (sort_key fst d) = map_of d"
proof -
  from assms have "distinct (map fst d)" by (simp add: str_dict_def)
  then have "map_of (sort_key fst d) = map_of d" by (rule map_of_sort_key)
  with loads_dumps [OF assms] show ?thesis
    by (simp add: create_load_store_def run_load_store_def save_store_def)
qed

text \<open>The theorem at a mapping with two entries, one of them outside ASCII.\<close>

theorem save_load_roundtrip_witness:
  "str_dict plain_str (JObj [(py ''b'', JStr (py ''id2'')), (py ''a'', JStr [0xE9, 0x1F600, 0xDE00, 0xD83D])]) \<and>
   create_load_store (save_store (JObj [(py ''b'', JStr (py ''id2'')), (py ''a'', JStr [0xE9, 0x1F600, 0xDE00, 0xD83D])])) =
     JObj [(py ''a'', JStr [0xE9, 0x1F600, 0xDE00, 0xD83D]), (py ''b'', JStr (py ''id2''))] \<and>
   run_load_store (save_store (JObj [(py ''b'', JStr (py ''id2'')), (py ''a'', JStr [0xE9, 0x1F600, 0xDE00, 0xD83D])])) =
     Inr (JObj [(py ''a'', JStr [0xE9, 0x1F600, 0xDE00, 0xD83D]), (py ''b'', JStr (py ''id2''))])"
proof -
  have d: "str_dict plain_str (JObj [(py ''b'', JStr (py ''id2'')), (py ''a'', JStr [0xE9, 0x1F600, 0xDE00, 0xD83D])])"
    by (simp add: str_dict_def plain_str_def wellformed_def py_def is_high_surrogate_def is_low_surrogate_def)
  from save_load_roundtrip [OF d] d show ?thesis
    by (simp add: py_def)
qed

section \<open>The form of the registry file\<close>

lemma sort_key_same_mapping:
  assumes "distinct (map fst d)" "distinct (map fst d')" "map_of d = map_of d'"
  shows "sort_key fst d = sort_key fst d'"
proof (rule sort_key_eq_sort_key)
  from assms have "set d = set d'" by (simp add: map_of_inject_set)
  moreover from assms have "distinct d" "distinct d'" by (simp_all add: distinct_map)
  ultimately show "mset d = mset d'" by (simp add: set_eq_iff_mset_eq_distinct)
  from assms(1) show "inj_on fst (set d)" by (simp add: distinct_map)
qed

lemma join_lines:
  "xs \<noteq> [] \<Longrightarrow> nl @ join (sep @ nl) (map f xs) = join sep (map (\<lambda>x. nl @ f x) xs)"
  by (induction xs rule: induct_list012) simp_all

text \<open>
  C9: for every mapping, \<open>save_store\<close> writes the file as one JSON object: \<open>{}\<close> for the
  empty mapping, and otherwise an opening brace, the entries in the order of their keys,
  each on a line of its own that starts with two spaces and separated by commas, a line
  feed and the closing brace. The entries written are those of the mapping, and two
  dicts that are the same mapping give the same file.
\<close>

theorem save_store_sorted:
  "save_store (JObj d) =
     Content (if d = [] then py ''{}''
              else py ''{''
                @ join (py '','')
                    (map (\<lambda>(k, v). [0x0A, 0x20, 0x20] @ encode_basestring_ascii k @ py '': ''
                                       @ iterencode (Suc 0) v)
                         (sort_key fst d))
                @ [0x0A] @ py ''}'') \<and>
   sorted (map fst (sort_key fst d)) \<and>
   set (sort_key fst d) = set d \<and>
   (\<forall>d'. distinct (map fst d) \<and> distinct (map fst d') \<and> map_of d = map_of d' \<longrightarrow>
      save_store (JObj d) = save_store (JObj d'))"
proof -
  let ?r = "\<lambda>(k, v). encode_basestring_ascii k @ py '': '' @ iterencode (Suc 0) v"
  have "d \<noteq> [] \<Longrightarrow> sort_key fst d \<noteq> []" by (metis length_0_conv length_sort)
  then have "d \<noteq> [] \<Longrightarrow>
      newline_indent (Suc 0) @ join (py '','' @ newline_indent (Suc 0)) (map ?r (sort_key fst d))
        = join (py '','') (map (\<lambda>x. newline_indent (Suc 0) @ ?r x) (sort_key fst d))"
    by (rule join_lines)
  then have layout: "save_store (JObj d) =
     Content (if d = [] then py ''{}''
              else py ''{''
                @ join (py '','')
                    (map (\<lambda>(k, v). [0x0A, 0x20, 0x20] @ encode_basestring_ascii k @ py '': ''
                                       @ iterencode (Suc 0) v)
                         (sort_key fst d))
                @ [0x0A] @ py ''}'')"
    by (simp add: save_store_def dumps_def newline_indent_0 newline_indent_1 case_prod_unfold)
  have same: "save_store (JObj d) = save_store (JObj d')"
    if "distinct (map fst d)" "distinct (map fst d')" "map_of d = map_of d'" for d'
    using sort_key_same_mapping [OF that] that(3)
    by (cases "d = []"; cases "d' = []") (auto simp: save_store_def dumps_def)
  from layout same show ?thesis by auto
qed

text \<open>The theorem at a mapping with two entries, stored in two orders.\<close>

theorem save_store_sorted_witness:
  "save_store (JObj [(py ''b'', JStr (py ''id2'')), (py ''a'', JStr (py ''id1''))]) =
     Content ([0x7B, 0x0A, 0x20, 0x20, 0x22, 0x61, 0x22, 0x3A, 0x20, 0x22, 0x69, 0x64, 0x31, 0x22, 0x2C,
               0x0A, 0x20, 0x20, 0x22, 0x62, 0x22, 0x3A, 0x20, 0x22, 0x69, 0x64, 0x32, 0x22, 0x0A, 0x7D]) \<and>
   save_store (JObj [(py ''b'', JStr (py ''id2'')), (py ''a'', JStr (py ''id1''))]) =
     save_store (JObj [(py ''a'', JStr (py ''id1'')), (py ''b'', JStr (py ''id2''))])"
proof -
  let ?d = "[(py ''b'', JStr (py ''id2'')), (py ''a'', JStr (py ''id1''))]"
  let ?d' = "[(py ''a'', JStr (py ''id1'')), (py ''b'', JStr (py ''id2''))]"
  have same: "distinct (map fst ?d) \<and> distinct (map fst ?d') \<and> map_of ?d = map_of ?d'"
    by (auto simp: fun_eq_iff py_def)
  have sorted: "sort_key fst ?d = ?d'"
    by (simp add: py_def)
  note at_d = save_store_sorted [of ?d]
  from at_d have layout: "save_store (JObj ?d) =
     Content (if ?d = [] then py ''{}''
              else py ''{''
                @ join (py '','')
                    (map (\<lambda>(k, v). [0x0A, 0x20, 0x20] @ encode_basestring_ascii k @ py '': ''
                                       @ iterencode (Suc 0) v)
                         (sort_key fst ?d))
                @ [0x0A] @ py ''}'')"
    by (rule conjunct1)
  from at_d same have det: "save_store (JObj ?d) = save_store (JObj ?d')"
    by blast
  from layout have "save_store (JObj ?d) =
     Content ([0x7B, 0x0A, 0x20, 0x20, 0x22, 0x61, 0x22, 0x3A, 0x20, 0x22, 0x69, 0x64, 0x31, 0x22, 0x2C,
               0x0A, 0x20, 0x20, 0x22, 0x62, 0x22, 0x3A, 0x20, 0x22, 0x69, 0x64, 0x32, 0x22, 0x0A, 0x7D])"
    unfolding sorted by (simp add: py_def encode_basestring_ascii_def encode_char_def)
  with det show ?thesis by simp
qed

section \<open>What the provisioner stores\<close>

text \<open>
  C2: when the provisioner gets through (a name, a model and an endpoint are given and the
  service creates the agent), then for every mapping \<open>d\<close> that \<open>load_store\<close> finds, it
  returns and writes the file of the mapping that has the new identifier at the
  provisioned name and, at every other name, what \<open>d\<close> has there. When the file is absent,
  cannot be read or does not parse, the mapping it starts from is the empty one.
\<close>

theorem create_main_store:
  assumes parse: "create_parse_args av env = Inr args"
    and deployment: "(if truthy (model args) then model args else env (py ''MODEL_DEPLOYMENT_NAME''))
                       = Some deployment" "deployment \<noteq> []"
    and endpoint: "truthy (env (py ''PROJECT_ENDPOINT''))"
    and created: "create_agent client deployment (name args) instructions
                    (definitions \<lparr>server_label = mcp_label args, server_url = mcp_url args\<rparr>)
                    (service w) = (Inr a, s')"
  shows "(\<forall>d. create_load_store (store_file w) = JObj d \<longrightarrow>
            fst (create_main client av env w) = Returned \<and>
            store_file (snd (create_main client av env w)) =
              save_store (JObj (AList.update (name args) (JStr (agent_id a)) d)) \<and>
            map_of (AList.update (name args) (JStr (agent_id a)) d) =
              (map_of d)(name args \<mapsto> JStr (agent_id a))) \<and>
         (store_file w = Absent \<or> store_file w = Unreadable \<or>
            (\<exists>t. store_file w = Content t \<and> loads t = None) \<longrightarrow>
          create_load_store (store_file w) = JObj [])"
proof -
  have run: "create_main client av env w =
      (case setitem (create_load_store (store_file w)) (name args) (JStr (agent_id a)) of
         Inl e \<Rightarrow> (Uncaught e, w\<lparr>service := s', log := log w @ [Remote (CreateAgent deployment (name args) instructions
                    (definitions \<lparr>server_label = mcp_label args, server_url = mcp_url args\<rparr>))]\<rparr>)
       | Inr store \<Rightarrow>
           (Returned,
            emit (Print StoredMapping)
              (emit (Print (CreatedAgent (name args) (agent_id a)))
                 (w\<lparr>service := s', log := log w @ [Remote (CreateAgent deployment (name args) instructions
                    (definitions \<lparr>server_label = mcp_label args, server_url = mcp_url args\<rparr>))],
                    store_file := save_store store\<rparr>))))"
    using assms by (simp add: create_main_def remote_def Let_def)
  have "fst (create_main client av env w) = Returned \<and>
        store_file (snd (create_main client av env w)) =
          save_store (JObj (AList.update (name args) (JStr (agent_id a)) d))"
    if "create_load_store (store_file w) = JObj d" for d
    unfolding run using that by (simp add: setitem_def emit_def)
  moreover have "create_load_store (store_file w) = JObj []"
    if "store_file w = Absent \<or> store_file w = Unreadable \<or>
            (\<exists>t. store_file w = Content t \<and> loads t = None)"
    using that by (auto simp: create_load_store_def)
  ultimately show ?thesis
    by (simp add: update_conv')
qed

lemma demo_registry:
  "create_load_store (save_store (JObj [(py ''other'', JStr (py ''asst_0'')), (py ''demo'', JStr (py ''asst_old''))]))
     = JObj [(py ''demo'', JStr (py ''asst_old'')), (py ''other'', JStr (py ''asst_0''))]"
proof -
  have "str_dict plain_str (JObj [(py ''other'', JStr (py ''asst_0'')), (py ''demo'', JStr (py ''asst_old''))])"
    by (simp add: str_dict_def plain_str_def wellformed_def py_def is_high_surrogate_def)
  then show ?thesis
    by (simp add: create_load_store_def save_store_def loads_dumps) (simp add: py_def)
qed

text \<open>
  The theorem at a registry that holds the provisioned name and another one, and at an
  absent file.
\<close>

theorem create_main_store_witness:
  "fst (create_main scripted (an_argv (py ''demo'')) an_environ
          (a_world [] [] (save_store (JObj [(py ''other'', JStr (py ''asst_0'')),
                                            (py ''demo'', JStr (py ''asst_old''))])))) = Returned \<and>
   store_file (snd (create_main scripted (an_argv (py ''demo'')) an_environ
          (a_world [] [] (save_store (JObj [(py ''other'', JStr (py ''asst_0'')),
                                            (py ''demo'', JStr (py ''asst_old''))]))))) =
     save_store (JObj [(py ''demo'', JStr (py ''asst_1'')), (py ''other'', JStr (py ''asst_0''))]) \<and>
   store_file (snd (create_main scripted (an_argv (py ''demo'')) an_environ (a_world [] [] Absent))) =
     save_store (JObj [(py ''demo'', JStr (py ''asst_1''))])"
proof -
  let ?args = "\<lparr>name = py ''demo'', model = None,
           mcp_url = py ''https://gitmcp.io/Azure/azure-rest-api-specs'', mcp_label = py ''github''\<rparr>"
  let ?f = "save_store (JObj [(py ''other'', JStr (py ''asst_0'')), (py ''demo'', JStr (py ''asst_old''))])"
  have parse: "create_parse_args (an_argv (py ''demo'')) an_environ = Inr ?args"
    by (simp add: create_parse_args_def an_argv_def an_environ_def get_default_def py_def)
  have deployment: "(if truthy (model ?args) then model ?args else an_environ (py ''MODEL_DEPLOYMENT_NAME''))
                       = Some (py ''gpt-4o'')" "py ''gpt-4o'' \<noteq> []"
    by (simp_all add: truthy_def an_environ_def py_def)
  have endpoint: "truthy (an_environ (py ''PROJECT_ENDPOINT''))"
    by (simp add: truthy_def an_environ_def py_def)
  have created: "create_agent scripted (py ''gpt-4o'') (name ?args) instructions
                    (definitions \<lparr>server_label = mcp_label ?args, server_url = mcp_url ?args\<rparr>)
                    (service (a_world [] [] f)) = (Inr \<lparr>agent_id = py ''asst_1''\<rparr>, service (a_world [] [] f))" for f
    by (simp add: scripted_def)
  note full = create_main_store [OF parse deployment endpoint created, of ?f]
  note empty = create_main_store [OF parse deployment endpoint created, of Absent]
  have "create_load_store (store_file (a_world [] [] ?f)) =
      JObj [(py ''demo'', JStr (py ''asst_old'')), (py ''other'', JStr (py ''asst_0''))]"
    using demo_registry by (simp add: a_world_def)
  with full have
    "fst (create_main scripted (an_argv (py ''demo'')) an_environ (a_world [] [] ?f)) = Returned \<and>
     store_file (snd (create_main scripted (an_argv (py ''demo'')) an_environ (a_world [] [] ?f))) =
       save_store (JObj (AList.update (py ''demo'') (JStr (py ''asst_1''))
          [(py ''demo'', JStr (py ''asst_old'')), (py ''other'', JStr (py ''asst_0''))]))"
    by simp
  moreover from empty have "create_load_store (store_file (a_world [] [] Absent)) = JObj []"
    by (simp add: a_world_def)
  with empty have
    "store_file (snd (create_main scripted (an_argv (py ''demo'')) an_environ (a_world [] [] Absent))) =
       save_store (JObj (AList.update (py ''demo'') (JStr (py ''asst_1'')) []))"
    by simp
  ultimately show ?thesis by simp
qed

section \<open>Fatal exits before the first remote call\<close>

text \<open>
  C5: each script stops with \<open>SystemExit\<close>, the world as it was (no remote call in the
  log, no prompt, no line printed, the service untouched), when a required value is
  missing: for the provisioner the model (neither \<open>--model\<close> nor \<open>MODEL_DEPLOYMENT_NAME\<close>)
  or the endpoint \<open>PROJECT_ENDPOINT\<close>; for the runner the registry file (absent, or
  unreadable or unparsable), the requested name in the registry, or the endpoint. With
  the endpoint missing the runner never gets to a remote call, whatever the registry
  holds.
\<close>

theorem fatal_before_remote:
  "(flag_name av = Some n \<and> \<not> truthy (flag_model av) \<and> \<not> truthy (env (py ''MODEL_DEPLOYMENT_NAME''))
      \<longrightarrow> create_main client av env w = (SystemExit ModelMissing, w)) \<and>
   (flag_name av = Some n \<and> (truthy (flag_model av) \<or> truthy (env (py ''MODEL_DEPLOYMENT_NAME''))) \<and>
    \<not> truthy (env (py ''PROJECT_ENDPOINT''))
      \<longrightarrow> create_main client av env w = (SystemExit EndpointMissing, w)) \<and>
   (run_parse_args av = Inr n \<and> store_file w = Absent
      \<longrightarrow> run_main ul client av env stdin w = Some (SystemExit StoreNotFound, w)) \<and>
   (run_parse_args av = Inr n \<and>
    (store_file w = Unreadable \<or> (\<exists>t. store_file w = Content t \<and> loads t = None))
      \<longrightarrow> run_main ul client av env stdin w = Some (SystemExit StoreUnreadable, w)) \<and>
   (run_parse_args av = Inr n \<and> store_file w = Content t \<and> loads t = Some (JObj d) \<and>
    n \<notin> fst ` set d
      \<longrightarrow> run_main ul client av env stdin w = Some (SystemExit (NameNotFound n), w)) \<and>
   (run_parse_args av = Inr n \<and> store_file w = Content t \<and> loads t = Some (JObj d) \<and>
    n \<in> fst ` set d \<and> \<not> truthy (env (py ''PROJECT_ENDPOINT''))
      \<longrightarrow> run_main ul client av env stdin w = Some (SystemExit EndpointMissing, w)) \<and>
   (\<not> truthy (env (py ''PROJECT_ENDPOINT''))
      \<longrightarrow> (\<exists>x. run_main ul client av env stdin w = Some (x, w) \<and> x \<noteq> Returned))"
proof (intro conjI impI)
  assume "flag_name av = Some n \<and> \<not> truthy (flag_model av) \<and> \<not> truthy (env (py ''MODEL_DEPLOYMENT_NAME''))"
  then show "create_main client av env w = (SystemExit ModelMissing, w)"
    by (auto simp: create_main_def create_parse_args_def truthy_def split: option.splits)
next
  assume "flag_name av = Some n \<and> (truthy (flag_model av) \<or> truthy (env (py ''MODEL_DEPLOYMENT_NAME''))) \<and>
    \<not> truthy (env (py ''PROJECT_ENDPOINT''))"
  then show "create_main client av env w = (SystemExit EndpointMissing, w)"
    by (auto simp: create_main_def create_parse_args_def truthy_def split: option.splits)
next
  assume "run_parse_args av = Inr n \<and> store_file w = Absent"
  then show "run_main ul client av env stdin w = Some (SystemExit StoreNotFound, w)"
    by (simp add: run_main_def run_load_store_def)
next
  assume "run_parse_args av = Inr n \<and>
    (store_file w = Unreadable \<or> (\<exists>t. store_file w = Content t \<and> loads t = None))"
  then show "run_main ul client av env stdin w = Some (SystemExit StoreUnreadable, w)"
    by (auto simp: run_main_def run_load_store_def)
next
  assume "run_parse_args av = Inr n \<and> store_file w = Content t \<and> loads t = Some (JObj d) \<and>
    n \<notin> fst ` set d"
  then show "run_main ul client av env stdin w = Some (SystemExit (NameNotFound n), w)"
    by (simp add: run_main_def run_load_store_def contains_def)
next
  assume a: "run_parse_args av = Inr n \<and> store_file w = Content t \<and> loads t = Some (JObj d) \<and>
    n \<in> fst ` set d \<and> \<not> truthy (env (py ''PROJECT_ENDPOINT''))"
  then have "map_of d n \<noteq> None" by (simp add: map_of_eq_None_iff)
  with a show "run_main ul client av env stdin w = Some (SystemExit EndpointMissing, w)"
    by (auto simp: run_main_def run_load_store_def contains_def getitem_def)
next
  assume "\<not> truthy (env (py ''PROJECT_ENDPOINT''))"
  then show "\<exists>x. run_main ul client av env stdin w = Some (x, w) \<and> x \<noteq> Returned"
    by (auto simp: run_main_def split: sum.splits)
qed


lemma other_registry:
  "loads (dumps (JObj [(py ''other'', JStr (py ''asst_0''))])) = Some (JObj [(py ''other'', JStr (py ''asst_0''))])"
proof -
  have "str_dict plain_str (JObj [(py ''other'', JStr (py ''asst_0''))])"
    by (simp add: str_dict_def plain_str_def wellformed_def py_def is_high_surrogate_def)
  then show ?thesis
    by (simp add: loads_dumps)
qed

text \<open>The theorem at one run for each of its six cases.\<close>

theorem fatal_before_remote_witness:
  "create_main scripted (an_argv (py ''demo'')) (\<lambda>v. None) (a_world [] [] Absent) =
     (SystemExit ModelMissing, a_world [] [] Absent) \<and>
   create_main scripted (an_argv (py ''demo'')) [py ''MODEL_DEPLOYMENT_NAME'' \<mapsto> py ''gpt-4o'']
       (a_world [] [] Absent) =
     (SystemExit EndpointMissing, a_world [] [] Absent) \<and>
   run_main (\<lambda>s. s) scripted (an_argv (py ''demo'')) an_environ [py ''hello''] (a_world [] [] Absent) =
     Some (SystemExit StoreNotFound, a_world [] [] Absent) \<and>
   run_main (\<lambda>s. s) scripted (an_argv (py ''demo'')) an_environ [py ''hello'']
       (a_world [] [] (Content (py ''{''))) =
     Some (SystemExit StoreUnreadable, a_world [] [] (Content (py ''{''))) \<and>
   run_main (\<lambda>s. s) scripted (an_argv (py ''demo'')) an_environ [py ''hello'']
       (a_world [] [] (Content (dumps (JObj [(py ''other'', JStr (py ''asst_0''))])))) =
     Some (SystemExit (NameNotFound (py ''demo'')),
           a_world [] [] (Content (dumps (JObj [(py ''other'', JStr (py ''asst_0''))])))) \<and>
   run_main (\<lambda>s. s) scripted (an_argv (py ''other'')) (\<lambda>v. None) [py ''hello'']
       (a_world [] [] (Content (dumps (JObj [(py ''other'', JStr (py ''asst_0''))])))) =
     Some (SystemExit EndpointMissing,
           a_world [] [] (Content (dumps (JObj [(py ''other'', JStr (py ''asst_0''))]))))"
proof -
  let ?t = "dumps (JObj [(py ''other'', JStr (py ''asst_0''))])"
  let ?d = "[(py ''other'', JStr (py ''asst_0''))]"
  let ?gpt = "[py ''MODEL_DEPLOYMENT_NAME'' \<mapsto> py ''gpt-4o'']"
  let ?none = "(\<lambda>v. None) :: environ"
  have bad: "loads (py ''{'') = None"
    by (simp add: json_eval)
  have h1: "flag_name (an_argv (py ''demo'')) = Some (py ''demo'') \<and>
      \<not> truthy (flag_model (an_argv (py ''demo''))) \<and> \<not> truthy (?none (py ''MODEL_DEPLOYMENT_NAME''))"
    by (simp add: an_argv_def truthy_def)
  have h2: "flag_name (an_argv (py ''demo'')) = Some (py ''demo'') \<and>
      (truthy (flag_model (an_argv (py ''demo''))) \<or> truthy (?gpt (py ''MODEL_DEPLOYMENT_NAME''))) \<and>
      \<not> truthy (?gpt (py ''PROJECT_ENDPOINT''))"
    by (simp add: an_argv_def truthy_def py_def)
  have h3: "run_parse_args (an_argv (py ''demo'')) = Inr (py ''demo'') \<and>
      store_file (a_world [] [] Absent) = Absent"
    by (simp add: run_parse_args_def an_argv_def a_world_def)
  have h4: "run_parse_args (an_argv (py ''demo'')) = Inr (py ''demo'') \<and>
      (store_file (a_world [] [] (Content (py ''{''))) = Unreadable \<or>
       (\<exists>t. store_file (a_world [] [] (Content (py ''{''))) = Content t \<and> loads t = None))"
    using bad by (simp add: run_parse_args_def an_argv_def a_world_def)
  have h5: "run_parse_args (an_argv (py ''demo'')) = Inr (py ''demo'') \<and>
      store_file (a_world [] [] (Content ?t)) = Content ?t \<and> loads ?t = Some (JObj ?d) \<and>
      py ''demo'' \<notin> fst ` set ?d"
    using other_registry by (simp add: run_parse_args_def an_argv_def a_world_def py_def)
  have h6: "run_parse_args (an_argv (py ''other'')) = Inr (py ''other'') \<and>
      store_file (a_world [] [] (Content ?t)) = Content ?t \<and> loads ?t = Some (JObj ?d) \<and>
      py ''other'' \<in> fst ` set ?d \<and> \<not> truthy (?none (py ''PROJECT_ENDPOINT''))"
    using other_registry by (simp add: run_parse_args_def an_argv_def a_world_def truthy_def)
  have c1: "create_main scripted (an_argv (py ''demo'')) ?none (a_world [] [] Absent) =
     (SystemExit ModelMissing, a_world [] [] Absent)"
    using h1 fatal_before_remote [where av = "an_argv (py ''demo'')" and n = "py ''demo''"
        and env = ?none and client = scripted and w = "a_world [] [] Absent"]
    by blast
  have c2: "create_main scripted (an_argv (py ''demo'')) ?gpt (a_world [] [] Absent) =
      (SystemExit EndpointMissing, a_world [] [] Absent)"
    using h2 fatal_before_remote [where av = "an_argv (py ''demo'')" and n = "py ''demo''"
        and env = ?gpt and client = scripted and w = "a_world [] [] Absent"]
    by blast
  have c3: "run_main (\<lambda>s. s) scripted (an_argv (py ''demo'')) an_environ [py ''hello''] (a_world [] [] Absent) =
     Some (SystemExit StoreNotFound, a_world [] [] Absent)"
    using h3 fatal_before_remote [where av = "an_argv (py ''demo'')" and n = "py ''demo''"
        and env = an_environ and client = scripted and w = "a_world [] [] Absent"
        and ul = "\<lambda>s. s" and stdin = "[py ''hello'']"]
    by blast
  have c4: "run_main (\<lambda>s. s) scripted (an_argv (py ''demo'')) an_environ [py ''hello'']
       (a_world [] [] (Content (py ''{''))) =
     Some (SystemExit StoreUnreadable, a_world [] [] (Content (py ''{'')))"
    using h4 fatal_before_remote [where av = "an_argv (py ''demo'')" and n = "py ''demo''"
        and env = an_environ and client = scripted and w = "a_world [] [] (Content (py ''{''))"
        and ul = "\<lambda>s. s" and stdin = "[py ''hello'']"]
    by blast
  have c5: "run_main (\<lambda>s. s) scripted (an_argv (py ''demo'')) an_environ [py ''hello'']
       (a_world [] [] (Content ?t)) =
     Some (SystemExit (NameNotFound (py ''demo'')), a_world [] [] (Content ?t))"
    using h5 fatal_before_remote [where av = "an_argv (py ''demo'')" and n = "py ''demo''"
        and env = an_environ and client = scripted and w = "a_world [] [] (Content ?t)"
        and ul = "\<lambda>s. s" and stdin = "[py ''hello'']" and t = ?t and d = ?d]
    by blast
  have c6: "run_main (\<lambda>s. s) scripted (an_argv (py ''other'')) ?none [py ''hello'']
       (a_world [] [] (Content ?t)) =
     Some (SystemExit EndpointMissing, a_world [] [] (Content ?t))"
    using h6 fatal_before_remote [where av = "an_argv (py ''other'')" and n = "py ''other''"
        and env = ?none and client = scripted and w = "a_world [] [] (Content ?t)"
        and ul = "\<lambda>s. s" and stdin = "[py ''hello'']" and t = ?t and d = ?d]
    by blast
  from c1 c2 c3 c4 c5 c6 show ?thesis by simp
qed

section \<open>The input loop\<close>

lemma strip_blank:
  assumes "\<forall>c \<in> set line. isspace c"
  shows "strip line = []"
proof -
  from assms have blank: "dropWhile isspace line = []" by (simp add: dropWhile_eq_Nil_conv)
  show ?thesis unfolding strip_def blank by simp
qed

lemma strip_ends:
  assumes "strip s \<noteq> []"
  shows "\<not> isspace (hd (strip s)) \<and> \<not> isspace (last (strip s))"
proof -
  let ?a = "dropWhile isspace s"
  let ?b = "rev (dropWhile isspace (rev ?a))"
  have b: "strip s = ?b" by (simp add: strip_def)
  with assms have ne: "dropWhile isspace (rev ?a) \<noteq> []" by simp
  then have "\<not> isspace (hd (dropWhile isspace (rev ?a)))" by (rule hd_dropWhile)
  with ne have last: "\<not> isspace (last ?b)" by (simp add: last_rev)
  have "rev ?a = takeWhile isspace (rev ?a) @ dropWhile isspace (rev ?a)" by simp
  then have "rev (rev ?a) = rev (takeWhile isspace (rev ?a) @ dropWhile isspace (rev ?a))"
    by simp
  then have split: "?a = ?b @ rev (takeWhile isspace (rev ?a))"
    by (simp only: rev_rev_ident rev_append)
  with assms b have "hd ?a = hd ?b" by (metis hd_append2)
  moreover from split assms b have "?a \<noteq> []" by (metis append_is_Nil_conv)
  then have "\<not> isspace (hd ?a)" by (rule hd_dropWhile)
  ultimately show ?thesis using last b by simp
qed

lemma strip_unpadded:
  assumes "s \<noteq> []" "\<not> isspace (hd s)" "\<not> isspace (last s)"
  shows "strip s = s"
proof -
  from assms(1,2) have "dropWhile isspace s = s" by (cases s) simp_all
  moreover from assms(1,3) have "dropWhile isspace (rev s) = rev s"
    by (cases "rev s") (simp_all add: last_rev [symmetric] hd_rev)
  ultimately show ?thesis by (simp add: strip_def)
qed

lemma strip_strip: "strip (strip s) = strip s"
proof (cases "strip s = []")
  case True
  show ?thesis unfolding True by (simp add: strip_def)
next
  case False
  with strip_ends [OF False] show ?thesis by (simp add: strip_unpadded)
qed


lemma lower_ascii: "\<forall>c \<in> set s. c < 0x80 \<Longrightarrow> lower ul s = map ascii_lower s"
  by (simp add: lower_def)

lemma quit_letter:
  "ascii_lower c \<in> {0x3A, 0x71, 0x75, 0x69, 0x74, 0x65, 0x78} \<Longrightarrow> c < 0x80 \<and> \<not> isspace c"
  by (auto simp: ascii_lower_def isspace_def split: if_splits)

lemma quit_variant:
  assumes "map ascii_lower s \<in> quit_commands"
  shows "strip s = s \<and> s \<noteq> [] \<and> lower ul s = map ascii_lower s"
proof -
  from assms have "set (map ascii_lower s) \<subseteq> {0x3A, 0x71, 0x75, 0x69, 0x74, 0x65, 0x78}"
    by (auto simp: quit_commands_def py_def)
  then have letters: "\<forall>c \<in> set s. c < 0x80 \<and> \<not> isspace c"
    using quit_letter by auto
  from assms have ne: "s \<noteq> []" by (auto simp: quit_commands_def py_def)
  with letters have "\<not> isspace (hd s)" "\<not> isspace (last s)" by simp_all
  with ne have "strip s = s" by (simp add: strip_unpadded)
  with ne letters show ?thesis by (simp add: lower_ascii)
qed

lemma lower_Nil: "lower ul [] = []"
  by (simp add: lower_def)

lemma interact_quit:
  "lower ul (strip line) \<in> quit_commands \<Longrightarrow>
   interact ul client tid aid (line # lines) w = Some (Inr (), emit Prompt w)"
  by (auto simp: Let_def lower_Nil quit_commands_def py_def)

lemma interact_blank:
  "strip line = [] \<Longrightarrow>
   interact ul client tid aid (line # lines) w = interact ul client tid aid lines (emit Prompt w)"
  by (simp add: Let_def)

text \<open>
  C7: a line that is blank once stripped (the empty line is one) costs a prompt and
  nothing else: the loop goes on to the next line. A line whose stripped, lower-cased
  form is \<open>:quit\<close>, \<open>:q\<close> or \<open>:exit\<close>, so each of the three in any mix of upper and lower
  case, ends the loop after its prompt, and so does the end of the input, after a
  prompt and an empty line. None of the three adds a remote call to the log.
\<close>

theorem interact_blank_quit_eof:
  "(strip line = [] \<longrightarrow>
      interact ul client tid aid (line # lines) w = interact ul client tid aid lines (emit Prompt w)) \<and>
   (lower ul (strip line) \<in> quit_commands \<longrightarrow>
      interact ul client tid aid (line # lines) w = Some (Inr (), emit Prompt w)) \<and>
   (map ascii_lower line \<in> quit_commands \<longrightarrow>
      interact ul client tid aid (line # lines) w = Some (Inr (), emit Prompt w)) \<and>
   interact ul client tid aid [] w = Some (Inr (), emit (Print Newline) (emit Prompt w)) \<and>
   requests (log (emit Prompt w)) = requests (log w) \<and>
   requests (log (emit (Print Newline) (emit Prompt w))) = requests (log w)"
proof (intro conjI impI)
  assume "map ascii_lower line \<in> quit_commands"
  then have "lower ul (strip line) \<in> quit_commands"
    using quit_variant [of line ul] by simp
  then show "interact ul client tid aid (line # lines) w = Some (Inr (), emit Prompt w)"
    by (rule interact_quit)
qed (simp_all add: interact_quit interact_blank emit_def requests_append del: interact.simps(2))

text \<open>The theorem at an empty line followed by the end of input, and at two quit commands.\<close>

theorem interact_blank_quit_eof_witness:
  "interact (\<lambda>s. s) scripted (py ''thread_1'') (JStr (py ''asst_1'')) [[]] (a_world [] [] Absent) =
     Some (Inr (), (a_world [] [] Absent)\<lparr>log := [Prompt, Prompt, Print Newline]\<rparr>) \<and>
   interact (\<lambda>s. s) scripted (py ''thread_1'') (JStr (py ''asst_1'')) [py '':Quit'', py ''not read'']
       (a_world [] [] Absent) =
     Some (Inr (), (a_world [] [] Absent)\<lparr>log := [Prompt]\<rparr>) \<and>
   interact (\<lambda>s. s) scripted (py ''thread_1'') (JStr (py ''asst_1'')) [py '':EXIT'']
       (a_world [] [] Absent) =
     Some (Inr (), (a_world [] [] Absent)\<lparr>log := [Prompt]\<rparr>)"
proof -
  let ?w = "a_world [] [] Absent :: scripted_state world"
  note at = interact_blank_quit_eof [where ul = "\<lambda>s. s" and client = scripted
      and tid = "py ''thread_1''" and aid = "JStr (py ''asst_1'')"]
  have blank: "strip [] = []" by (simp add: strip_def)
  have quit: "map ascii_lower (py '':Quit'') \<in> quit_commands"
    and exit: "map ascii_lower (py '':EXIT'') \<in> quit_commands"
    by (simp_all add: quit_commands_def py_def ascii_lower_def)
  from blank at [where line = "[]" and lines = "[]" and w = ?w]
  have "interact (\<lambda>s. s) scripted (py ''thread_1'') (JStr (py ''asst_1'')) [[]] ?w =
      interact (\<lambda>s. s) scripted (py ''thread_1'') (JStr (py ''asst_1'')) [] (emit Prompt ?w)"
    by blast
  also from at [where line = "[]" and lines = "[]" and w = "emit Prompt ?w"]
  have "\<dots> = Some (Inr (), emit (Print Newline) (emit Prompt (emit Prompt ?w)))"
    by blast
  finally have c1: "interact (\<lambda>s. s) scripted (py ''thread_1'') (JStr (py ''asst_1'')) [[]] ?w =
      Some (Inr (), ?w\<lparr>log := [Prompt, Prompt, Print Newline]\<rparr>)"
    by (simp add: emit_def a_world_def)
  from quit at [where line = "py '':Quit''" and lines = "[py ''not read'']" and w = ?w]
  have "interact (\<lambda>s. s) scripted (py ''thread_1'') (JStr (py ''asst_1'')) [py '':Quit'', py ''not read''] ?w =
      Some (Inr (), emit Prompt ?w)"
    by blast
  then have c2: "interact (\<lambda>s. s) scripted (py ''thread_1'') (JStr (py ''asst_1'')) [py '':Quit'', py ''not read''] ?w =
      Some (Inr (), ?w\<lparr>log := [Prompt]\<rparr>)"
    by (simp add: emit_def a_world_def)
  from exit at [where line = "py '':EXIT''" and lines = "[]" and w = ?w]
  have "interact (\<lambda>s. s) scripted (py ''thread_1'') (JStr (py ''asst_1'')) [py '':EXIT''] ?w =
      Some (Inr (), emit Prompt ?w)"
    by blast
  then have c3: "interact (\<lambda>s. s) scripted (py ''thread_1'') (JStr (py ''asst_1'')) [py '':EXIT''] ?w =
      Some (Inr (), ?w\<lparr>log := [Prompt]\<rparr>)"
    by (simp add: emit_def a_world_def)
  from c1 c2 c3 show ?thesis by simp
qed

text \<open>
  C10: the loop treats a line as it treats the stripped line. A line of white space only
  is blank: it costs a prompt and the loop goes on. A quit command between white space
  ends the loop as the bare command does; \<open>"  :QUIT  "\<close> is an example.
\<close>

theorem interact_strips:
  "interact ul client tid aid (line # lines) w = interact ul client tid aid (strip line # lines) w \<and>
   ((\<forall>c \<in> set line. isspace c) \<longrightarrow>
      interact ul client tid aid (line # lines) w = interact ul client tid aid lines (emit Prompt w)) \<and>
   (map ascii_lower (strip line) \<in> quit_commands \<longrightarrow>
      interact ul client tid aid (line # lines) w = Some (Inr (), emit Prompt w)) \<and>
   strip (py ''  :QUIT  '') = py '':QUIT'' \<and>
   interact ul client tid aid (py ''  :QUIT  '' # lines) w = Some (Inr (), emit Prompt w)"
proof (intro conjI impI)
  show "interact ul client tid aid (line # lines) w = interact ul client tid aid (strip line # lines) w"
    by (simp add: strip_strip)
  show "interact ul client tid aid (line # lines) w = interact ul client tid aid lines (emit Prompt w)"
    if "\<forall>c \<in> set line. isspace c"
    using strip_blank [OF that] by (rule interact_blank)
  show "interact ul client tid aid (line # lines) w = Some (Inr (), emit Prompt w)"
    if "map ascii_lower (strip line) \<in> quit_commands"
  proof -
    from that have "lower ul (strip line) = map ascii_lower (strip line)"
      using quit_variant [of "strip line" ul] by simp
    with that show ?thesis by (intro interact_quit) simp
  qed
  show padded: "strip (py ''  :QUIT  '') = py '':QUIT''"
    by (simp add: strip_def py_def isspace_def)
  have "lower ul (py '':QUIT'') = py '':quit''"
    by (simp add: lower_def py_def ascii_lower_def)
  then show "interact ul client tid aid (py ''  :QUIT  '' # lines) w = Some (Inr (), emit Prompt w)"
    using padded by (intro interact_quit) (simp add: quit_commands_def)
qed


text \<open>The theorem at a line of a space, a tab and a no-break space, and at a padded \<open>:q\<close>.\<close>

theorem interact_strips_witness:
  "interact (\<lambda>s. s) scripted (py ''thread_1'') (JStr (py ''asst_1'')) [[0x20, 0x09, 0xA0]]
       (a_world [] [] Absent) =
     interact (\<lambda>s. s) scripted (py ''thread_1'') (JStr (py ''asst_1'')) [] (emit Prompt (a_world [] [] Absent)) \<and>
   interact (\<lambda>s. s) scripted (py ''thread_1'') (JStr (py ''asst_1'')) [py '' :q  '', py ''not read'']
       (a_world [] [] Absent) =
     Some (Inr (), emit Prompt (a_world [] [] Absent))"
proof -
  let ?w = "a_world [] [] Absent :: scripted_state world"
  note at = interact_strips [where ul = "\<lambda>s. s" and client = scripted
      and tid = "py ''thread_1''" and aid = "JStr (py ''asst_1'')" and w = ?w]
  have blank: "\<forall>c \<in> set [0x20, 0x09, 0xA0]. isspace c"
    by (simp add: isspace_def)
  have quit: "map ascii_lower (strip (py '' :q  '')) \<in> quit_commands"
    by (simp add: quit_commands_def py_def ascii_lower_def strip_def isspace_def)
  from blank at [where line = "[0x20, 0x09, 0xA0]" and lines = "[]"]
  have c1: "interact (\<lambda>s. s) scripted (py ''thread_1'') (JStr (py ''asst_1'')) [[0x20, 0x09, 0xA0]] ?w =
      interact (\<lambda>s. s) scripted (py ''thread_1'') (JStr (py ''asst_1'')) [] (emit Prompt ?w)"
    by blast
  from quit at [where line = "py '' :q  ''" and lines = "[py ''not read'']"]
  have c2: "interact (\<lambda>s. s) scripted (py ''thread_1'') (JStr (py ''asst_1'')) [py '' :q  '', py ''not read''] ?w =
      Some (Inr (), emit Prompt ?w)"
    by blast
  from c1 c2 show ?thesis by simp
qed

section \<open>The reply of a turn\<close>

lemma first_reply_found:
  "role m = py ''assistant'' \<Longrightarrow> text_messages m \<noteq> [] \<Longrightarrow>
   \<forall>m' \<in> set newer. role m' \<noteq> py ''assistant'' \<or> text_messages m' = [] \<Longrightarrow>
   first_reply (newer @ m # older) = Some (last (text_messages m))"
  by (induction newer) auto

lemma first_reply_none:
  "\<forall>m \<in> set msgs. role m \<noteq> py ''assistant'' \<or> text_messages m = [] \<Longrightarrow> first_reply msgs = None"
  by (induction msgs) auto

text \<open>
  C6, as the spec words it, fails where the final text segment of the selected message is
  the empty string: the run below has completed, the latest assistant message has one
  text segment, and the runner prints no reply.
\<close>

theorem report_reply_counterexample:
  "status (a_run COMPLETED) = COMPLETED \<and>
   last_assistant [a_question (py ''hello''), a_reply [[]]] = Some [] \<and>
   report scripted (py ''thread_1'') (a_run COMPLETED)
       (a_world [] [a_question (py ''hello''), a_reply [[]]] Absent) =
     (Inr (), (a_world [] [a_question (py ''hello''), a_reply [[]]] Absent)
                \<lparr>log := [Remote (MessagesList (py ''thread_1'') ASCENDING),
                          Remote (RunStepsList (py ''thread_1'') (py ''run_1''))]\<rparr>)"
  by (simp add: scripted_def a_run_def a_world_def a_reply_def a_question_def report_def remote_def
      last_assistant_def print_reply_def tool_lines_def py_def)

text \<open>
  C6 (amended): for a run that has not failed, the runner lists the messages of the
  thread in ascending order, then prints one reply at most, then lists the run steps
  and prints the tools they used. The reply is the last text segment of the latest
  message that has the role \<open>assistant\<close> and at least one text segment, and it is printed
  when it is not empty; when it is empty, or no such message exists, no reply is printed.
\<close>

theorem report_reply:
  assumes "status r \<noteq> FAILED"
    and "messages_list client tid ASCENDING (service w) = (Inr msgs, s1)"
    and "run_steps_list client tid (run_id r) s1 = (Inr run_steps, s2)"
  shows "report client tid r w =
           (Inr (), w\<lparr>service := s2,
                       log := log w @ [Remote (MessagesList tid ASCENDING)]
                         @ (case last_assistant msgs of
                              None \<Rightarrow> []
                            | Some text \<Rightarrow> if text \<noteq> [] then [Print (Assistant text)] else [])
                         @ [Remote (RunStepsList tid (run_id r))] @ tool_lines run_steps\<rparr>) \<and>
         (\<forall>older m newer.
            msgs = older @ m # newer \<and> role m = py ''assistant'' \<and> text_messages m \<noteq> [] \<and>
            (\<forall>m' \<in> set newer. role m' \<noteq> py ''assistant'' \<or> text_messages m' = [])
            \<longrightarrow> last_assistant msgs = Some (last (text_messages m))) \<and>
         ((\<forall>m \<in> set msgs. role m \<noteq> py ''assistant'' \<or> text_messages m = [])
            \<longrightarrow> last_assistant msgs = None)"
proof (intro conjI allI impI)
  show "report client tid r w =
           (Inr (), w\<lparr>service := s2,
                       log := log w @ [Remote (MessagesList tid ASCENDING)]
                         @ (case last_assistant msgs of
                              None \<Rightarrow> []
                            | Some text \<Rightarrow> if text \<noteq> [] then [Print (Assistant text)] else [])
                         @ [Remote (RunStepsList tid (run_id r))] @ tool_lines run_steps\<rparr>)"
    using assms
    by (simp add: report_def remote_def print_reply_def emit_def split: option.splits)
next
  fix older m newer
  assume "msgs = older @ m # newer \<and> role m = py ''assistant'' \<and> text_messages m \<noteq> [] \<and>
            (\<forall>m' \<in> set newer. role m' \<noteq> py ''assistant'' \<or> text_messages m' = [])"
  then show "last_assistant msgs = Some (last (text_messages m))"
    using first_reply_found [of m "rev newer" "rev older"] by (simp add: last_assistant_def)
next
  assume "\<forall>m \<in> set msgs. role m \<noteq> py ''assistant'' \<or> text_messages m = []"
  then show "last_assistant msgs = None"
    using first_reply_none [of "rev msgs"] by (simp add: last_assistant_def)
qed

text \<open>
  The theorem at a thread whose latest assistant message has no text segment and whose
  one before has two, and at a thread with no assistant message.
\<close>

theorem report_reply_witness:
  "report scripted (py ''thread_1'') (a_run COMPLETED)
       (a_world [] [a_reply [py ''earlier''], a_question (py ''hello''),
                    a_reply [py ''one'', py ''two''], a_reply []] Absent) =
     (Inr (), (a_world [] [a_reply [py ''earlier''], a_question (py ''hello''),
                    a_reply [py ''one'', py ''two''], a_reply []] Absent)
                \<lparr>log := [Remote (MessagesList (py ''thread_1'') ASCENDING),
                          Print (Assistant (py ''two'')),
                          Remote (RunStepsList (py ''thread_1'') (py ''run_1''))]\<rparr>) \<and>
   report scripted (py ''thread_1'') (a_run COMPLETED)
       (a_world [] [a_question (py ''hello'')] Absent) =
     (Inr (), (a_world [] [a_question (py ''hello'')] Absent)
                \<lparr>log := [Remote (MessagesList (py ''thread_1'') ASCENDING),
                          Remote (RunStepsList (py ''thread_1'') (py ''run_1''))]\<rparr>)"
proof -
  let ?msgs = "[a_reply [py ''earlier''], a_question (py ''hello''),
                    a_reply [py ''one'', py ''two''], a_reply []]"
  let ?w = "a_world [] ?msgs Absent"
  let ?v = "a_world [] [a_question (py ''hello'')] Absent"
  have st: "status (a_run COMPLETED) \<noteq> FAILED" by (simp add: a_run_def)
  have l: "messages_list scripted (py ''thread_1'') ASCENDING (service w) =
      (Inr (thread_messages (service w)), service w)" for w :: "scripted_state world"
    by (simp add: scripted_def)
  have s: "run_steps_list scripted (py ''thread_1'') (run_id (a_run COMPLETED)) (service w) =
      (Inr (steps (service w)), service w)" for w :: "scripted_state world"
    by (simp add: scripted_def)
  note at_w = report_reply [OF st l s, of ?w]
  note at_v = report_reply [OF st l s, of ?v]
  have split: "thread_messages (service ?w) =
      [a_reply [py ''earlier''], a_question (py ''hello'')] @ a_reply [py ''one'', py ''two''] # [a_reply []] \<and>
      role (a_reply [py ''one'', py ''two'']) = py ''assistant'' \<and>
      text_messages (a_reply [py ''one'', py ''two'']) \<noteq> [] \<and>
      (\<forall>m' \<in> set [a_reply []]. role m' \<noteq> py ''assistant'' \<or> text_messages m' = [])"
    by (simp add: a_world_def a_reply_def)
  with at_w have "last_assistant (thread_messages (service ?w)) =
      Some (last (text_messages (a_reply [py ''one'', py ''two''])))"
    by blast
  then have found: "last_assistant (thread_messages (service ?w)) = Some (py ''two'')"
    by (simp add: a_reply_def)
  have "\<forall>m \<in> set (thread_messages (service ?v)). role m \<noteq> py ''assistant'' \<or> text_messages m = []"
    by (simp add: a_world_def a_question_def py_def)
  with at_v have none: "last_assistant (thread_messages (service ?v)) = None"
    by blast
  from at_w found have c1: "report scripted (py ''thread_1'') (a_run COMPLETED) ?w =
     (Inr (), ?w\<lparr>log := [Remote (MessagesList (py ''thread_1'') ASCENDING),
                          Print (Assistant (py ''two'')),
                          Remote (RunStepsList (py ''thread_1'') (py ''run_1''))]\<rparr>)"
    by (simp add: a_world_def a_run_def tool_lines_def py_def)
  from at_v none have c2: "report scripted (py ''thread_1'') (a_run COMPLETED) ?v =
     (Inr (), ?v\<lparr>log := [Remote (MessagesList (py ''thread_1'') ASCENDING),
                          Remote (RunStepsList (py ''thread_1'') (py ''run_1''))]\<rparr>)"
    by (simp add: a_world_def a_run_def tool_lines_def)
  from c1 c2 show ?thesis by simp
qed

section \<open>Polling\<close>

lemma collect_approvals_log:
  "collect_approvals tool_calls w = (approvals, w') \<Longrightarrow>
   \<exists>es. log w' = log w @ es \<and> (\<forall>e \<in> set es. polling_event e)"
proof (induction tool_calls w arbitrary: approvals w' rule: collect_approvals.induct)
  case (1 w)
  then show ?case by simp
next
  case (2 i tool_calls w)
  let ?w = "emit (Print (Approving (RequiredMcpToolCall i))) w"
  obtain as w1 where c: "collect_approvals tool_calls ?w = (as, w1)" by fastforce
  with 2 obtain es where "log w1 = log ?w @ es" "\<forall>e \<in> set es. polling_event e" by blast
  moreover from 2(2) c have "w' = w1" by simp
  ultimately have "log w' = log w @ (Print (Approving (RequiredMcpToolCall i)) # es) \<and>
      (\<forall>e \<in> set (Print (Approving (RequiredMcpToolCall i)) # es). polling_event e)"
    by (simp add: emit_def)
  then show ?case by blast
next
  case (3 i tool_calls w)
  then show ?case by simp
qed

lemma handle_approval_log:
  assumes "handle_approval client tid r w = (res, w')"
  shows "\<exists>es. log w' = log w @ es \<and> (\<forall>e \<in> set es. polling_event e)"
proof (cases "status r = REQUIRES_ACTION \<and> (\<exists>calls. required_action r = Some (SubmitToolApprovalAction calls))")
  case False
  with assms have "w' = w"
    by (auto simp: handle_approval_def split: option.splits required_action.splits if_splits)
  then show ?thesis by simp
next
  case True
  then obtain calls where calls: "required_action r = Some (SubmitToolApprovalAction calls)"
    and st: "status r = REQUIRES_ACTION" by blast
  obtain as w1 where c: "collect_approvals calls w = (as, w1)" by fastforce
  then obtain es where es: "log w1 = log w @ es" "\<forall>e \<in> set es. polling_event e"
    using collect_approvals_log by blast
  show ?thesis
  proof (cases "as = []")
    case True
    with assms calls st c have "w' = w1" by (simp add: handle_approval_def)
    with es show ?thesis by blast
  next
    case False
    with assms calls st c have "log w' = log w1 @ [Remote (RunsSubmitToolOutputs tid (run_id r) as)]"
      by (auto simp: handle_approval_def dest: remote_log)
    with es have "log w' = log w @ (es @ [Remote (RunsSubmitToolOutputs tid (run_id r) as)]) \<and>
        (\<forall>e \<in> set (es @ [Remote (RunsSubmitToolOutputs tid (run_id r) as)]). polling_event e)"
      by simp
    then show ?thesis by blast
  qed
qed

lemma poll_log:
  assumes ret: "poll client tid r w = Some (res, w')"
  shows "\<exists>es. log w' = log w @ es \<and> (\<forall>e \<in> set es. polling_event e)"
proof -
  have "\<exists>es. log (snd (res, w')) = log w @ es \<and> (\<forall>e \<in> set es. polling_event e)"
  proof (rule poll.raw_induct [where P = "\<lambda>client tid r w out.
          \<exists>es. log (snd out) = log w @ es \<and> (\<forall>e \<in> set es. polling_event e)", OF _ ret])
    fix f client tid r w out
    assume IH: "\<And>client tid r w out. f client tid r w = Some out \<Longrightarrow>
          \<exists>es. log (snd out) = log w @ es \<and> (\<forall>e \<in> set es. polling_event e)"
      and eq: "(if status r \<in> {QUEUED, IN_PROGRESS, REQUIRES_ACTION} then
        (case remote (RunsGet tid (run_id r)) (runs_get client tid (run_id r)) (emit (Sleep 1) w) of
           (Inl e, w1) \<Rightarrow> Some (Inl e, w1)
         | (Inr r1, w1) \<Rightarrow>
             (case handle_approval client tid r1 w1 of
                (Inl e, w2) \<Rightarrow> Some (Inl e, w2)
              | (Inr u, w2) \<Rightarrow> f client tid r1 (emit (Print (StatusLine (status r1))) w2)))
      else Some (Inr r, w)) = Some out"
    show "\<exists>es. log (snd out) = log w @ es \<and> (\<forall>e \<in> set es. polling_event e)"
    proof (cases "status r \<in> {QUEUED, IN_PROGRESS, REQUIRES_ACTION}")
      case False
      with eq show ?thesis by auto
    next
      case True
      obtain g w1 where g: "remote (RunsGet tid (run_id r)) (runs_get client tid (run_id r)) (emit (Sleep 1) w) = (g, w1)"
        by fastforce
      then have l1: "log w1 = log w @ [Sleep 1, Remote (RunsGet tid (run_id r))]"
        by (auto dest: remote_log simp: emit_def)
      show ?thesis
      proof (cases g)
        case (Inl e)
        with eq True g have "snd out = w1" by auto
        with l1 show ?thesis by simp
      next
        case (Inr r1)
        obtain h w2 where h: "handle_approval client tid r1 w1 = (h, w2)" by fastforce
        then obtain es where es: "log w2 = log w1 @ es" "\<forall>e \<in> set es. polling_event e"
          using handle_approval_log by blast
        show ?thesis
        proof (cases h)
          case (Inl e)
          with eq True g Inr h have "snd out = w2" by auto
          with l1 es have "log (snd out) = log w @ ([Sleep 1, Remote (RunsGet tid (run_id r))] @ es) \<and>
              (\<forall>e \<in> set ([Sleep 1, Remote (RunsGet tid (run_id r))] @ es). polling_event e)"
            by simp
          then show ?thesis by blast
        next
          case (Inr u)
          with eq True g \<open>g = Inr r1\<close> h
          have "f client tid r1 (emit (Print (StatusLine (status r1))) w2) = Some out" by simp
          then obtain es' where es': "log (snd out) = log (emit (Print (StatusLine (status r1))) w2) @ es'"
              "\<forall>e \<in> set es'. polling_event e"
            using IH by blast
          with l1 es have "log (snd out) = log w @ ([Sleep 1, Remote (RunsGet tid (run_id r))] @ es
                @ [Print (StatusLine (status r1))] @ es') \<and>
              (\<forall>e \<in> set ([Sleep 1, Remote (RunsGet tid (run_id r))] @ es
                @ [Print (StatusLine (status r1))] @ es'). polling_event e)"
            by (auto simp: emit_def)
          then show ?thesis by blast
        qed
      qed
    qed
  qed
  then show ?thesis by simp
qed


text \<open>
  C4: take a turn (a line that is neither blank nor a quit command, its message and its
  run created) whose polling ends at a run with status \<open>FAILED\<close>. The runner then prints
  the \<open>RunFailed\<close> line with the \<open>last_error\<close> of that run and goes on with the next line of
  input. Between the prompt and that line the log holds the creation of the message
  and of the run, their two lines, and events of polling only: no reply is printed and
  the messages are not listed.
\<close>

theorem failed_run:
  assumes input: "strip line \<noteq> []" "lower ul (strip line) \<notin> quit_commands"
    and created: "messages_create client tid (py ''user'') (strip line) (service w) = (Inr msg, s1)"
    and started: "runs_create client tid aid s1 = (Inr r0, s2)"
    and polled: "poll client tid r0
                   (w\<lparr>service := s2,
                      log := log w @ [Prompt, Remote (MessagesCreate tid (py ''user'') (strip line)),
                                      Print (CreatedMessage (message_id msg)),
                                      Remote (RunsCreate tid aid),
                                      Print (RunLine (run_id r0) (status r0))]\<rparr>)
                 = Some (Inr r, w')"
    and failed: "status r = FAILED"
  shows "interact ul client tid aid (line # lines) w =
           interact ul client tid aid lines (emit (Print (RunFailed (last_error r))) w') \<and>
         (\<exists>es. (\<forall>e \<in> set es. polling_event e) \<and>
               log w' = log w @ [Prompt, Remote (MessagesCreate tid (py ''user'') (strip line)),
                                 Print (CreatedMessage (message_id msg)),
                                 Remote (RunsCreate tid aid),
                                 Print (RunLine (run_id r0) (status r0))] @ es)"
proof
  have "turn client tid aid (strip line) (emit Prompt w) =
      Some (Inr (), emit (Print (RunFailed (last_error r))) w')"
    using created started polled failed
    by (simp add: turn_def remote_def emit_def report_def)
  with input show "interact ul client tid aid (line # lines) w =
           interact ul client tid aid lines (emit (Print (RunFailed (last_error r))) w')"
    by (simp add: Let_def)
  from poll_log [OF polled] show "\<exists>es. (\<forall>e \<in> set es. polling_event e) \<and>
               log w' = log w @ [Prompt, Remote (MessagesCreate tid (py ''user'') (strip line)),
                                 Print (CreatedMessage (message_id msg)),
                                 Remote (RunsCreate tid aid),
                                 Print (RunLine (run_id r0) (status r0))] @ es"
    by auto
qed

text \<open>The theorem at a session of one line, its run scripted to fail.\<close>

theorem failed_run_witness:
  "interact (\<lambda>s. s) scripted (py ''thread_1'') (JStr (py ''asst_1'')) [py ''hello'']
       (a_world [a_run QUEUED, a_failure] [] Absent) =
     Some (Inr (),
           (a_world [] [] Absent)
             \<lparr>log :=
                [Prompt,
                 Remote (MessagesCreate (py ''thread_1'') (py ''user'') (py ''hello'')),
                 Print (CreatedMessage (py ''msg_1'')),
                 Remote (RunsCreate (py ''thread_1'') (JStr (py ''asst_1''))),
                 Print (RunLine (py ''run_1'') QUEUED),
                 Sleep 1, Remote (RunsGet (py ''thread_1'') (py ''run_1'')),
                 Print (StatusLine FAILED),
                 Print (RunFailed (Some \<lparr>code = py ''server_error'', message = py ''boom''\<rparr>)),
                 Prompt, Print Newline]\<rparr>)"
proof -
  let ?s = "\<lambda>rs. \<lparr>script = rs, thread_messages = [], steps = []\<rparr>"
  let ?w = "a_world [a_run QUEUED, a_failure] [] Absent"
  let ?start = "[Prompt, Remote (MessagesCreate (py ''thread_1'') (py ''user'') (strip (py ''hello''))),
                 Print (CreatedMessage (message_id \<lparr>message_id = py ''msg_1'', role = py ''user'',
                    text_messages = [strip (py ''hello'')]\<rparr>)),
                 Remote (RunsCreate (py ''thread_1'') (JStr (py ''asst_1''))),
                 Print (RunLine (run_id (a_run QUEUED)) (status (a_run QUEUED)))]"
  let ?w' = "?w\<lparr>service := ?s [],
               log := log ?w @ ?start @ [Sleep 1, Remote (RunsGet (py ''thread_1'') (py ''run_1'')),
                 Print (StatusLine FAILED)]\<rparr>"
  have hello: "strip (py ''hello'') = py ''hello''"
    by (simp add: strip_def py_def isspace_def)
  have input: "strip (py ''hello'') \<noteq> []" "lower (\<lambda>s. s) (strip (py ''hello'')) \<notin> quit_commands"
    unfolding hello by (simp_all add: py_def lower_def ascii_lower_def quit_commands_def)
  have created: "messages_create scripted (py ''thread_1'') (py ''user'') (strip (py ''hello'')) (service ?w) =
      (Inr \<lparr>message_id = py ''msg_1'', role = py ''user'', text_messages = [strip (py ''hello'')]\<rparr>,
       ?s [a_run QUEUED, a_failure])"
    by (simp add: scripted_def a_world_def)
  have started: "runs_create scripted (py ''thread_1'') (JStr (py ''asst_1'')) (?s [a_run QUEUED, a_failure]) =
      (Inr (a_run QUEUED), ?s [a_failure])"
    by (simp add: scripted_def next_run_def)
  have polled: "poll scripted (py ''thread_1'') (a_run QUEUED)
      (?w\<lparr>service := ?s [a_failure], log := log ?w @ ?start\<rparr>) = Some (Inr a_failure, ?w')"
    by (simp add: poll.simps scripted_def next_run_def a_run_def a_world_def a_failure_def
        remote_def emit_def handle_approval_def)
  have failed: "status a_failure = FAILED"
    by (simp add: a_failure_def a_run_def)
  from failed_run [OF input created started polled failed, of "[]"]
  have "interact (\<lambda>s. s) scripted (py ''thread_1'') (JStr (py ''asst_1'')) [py ''hello''] ?w =
      interact (\<lambda>s. s) scripted (py ''thread_1'') (JStr (py ''asst_1'')) []
        (emit (Print (RunFailed (last_error a_failure))) ?w')"
    by blast
  then show ?thesis
    by (simp add: hello emit_def a_world_def a_run_def a_failure_def)
qed

text \<open>
  C1: a turn whose run is created \<open>QUEUED\<close> and fetched as \<open>IN_PROGRESS\<close>, then as
  \<open>REQUIRES_ACTION\<close> with an approval request for one remote-tool call, then as
  \<open>COMPLETED\<close>, on a thread whose latest assistant text is not empty. The runner sleeps
  one second before each of the three fetches, submits one batch of one approval
  (\<open>approve = True\<close>) for the pending call, fetches no more once the status is
  \<open>COMPLETED\<close>, and then lists the messages and prints the assistant text. The log of the
  turn is exactly the one below.
\<close>

theorem scripted_turn:
  assumes created: "messages_create client tid (py ''user'') user_input (service w) = (Inr msg, s1)"
    and r0: "runs_create client tid aid s1 = (Inr r0, s2)" "status r0 = QUEUED"
    and r1: "runs_get client tid (run_id r0) s2 = (Inr r1, s3)" "status r1 = IN_PROGRESS"
    and r2: "runs_get client tid (run_id r1) s3 = (Inr r2, s4)" "status r2 = REQUIRES_ACTION"
      "required_action r2 = Some (SubmitToolApprovalAction [RequiredMcpToolCall call])"
    and approved: "runs_submit_tool_outputs client tid (run_id r2) [ToolApproval call True] s4
                     = (Inr (), s5)"
    and r3: "runs_get client tid (run_id r2) s5 = (Inr r3, s6)" "status r3 = COMPLETED"
    and listed: "messages_list client tid ASCENDING s6 = (Inr msgs, s7)"
      "last_assistant msgs = Some reply" "reply \<noteq> []"
    and steps: "run_steps_list client tid (run_id r3) s7 = (Inr run_steps, s8)"
  shows "turn client tid aid user_input w =
           Some (Inr (),
                 w\<lparr>service := s8,
                    log := log w @
                      [Remote (MessagesCreate tid (py ''user'') user_input),
                       Print (CreatedMessage (message_id msg)),
                       Remote (RunsCreate tid aid),
                       Print (RunLine (run_id r0) QUEUED),
                       Sleep 1, Remote (RunsGet tid (run_id r0)),
                       Print (StatusLine IN_PROGRESS),
                       Sleep 1, Remote (RunsGet tid (run_id r1)),
                       Print (Approving (RequiredMcpToolCall call)),
                       Remote (RunsSubmitToolOutputs tid (run_id r2) [ToolApproval call True]),
                       Print (StatusLine REQUIRES_ACTION),
                       Sleep 1, Remote (RunsGet tid (run_id r2)),
                       Print (StatusLine COMPLETED),
                       Remote (MessagesList tid ASCENDING),
                       Print (Assistant reply),
                       Remote (RunStepsList tid (run_id r3))] @ tool_lines run_steps\<rparr>)"
proof -
  have p3: "poll client tid r3 v = Some (Inr r3, v)" for v
    using r3(2) by (simp add: poll.simps [of client tid r3])
  have p2: "poll client tid r2 v =
      Some (Inr r3, v\<lparr>service := s6,
                       log := log v @ [Sleep 1, Remote (RunsGet tid (run_id r2)),
                                       Print (StatusLine COMPLETED)]\<rparr>)"
    if "service v = s5" for v
    using that r2(2) r3
    by (simp add: poll.simps [of client tid r2] p3 remote_def emit_def handle_approval_def)
  have p1: "poll client tid r1 v =
      Some (Inr r3, v\<lparr>service := s6,
                       log := log v @ [Sleep 1, Remote (RunsGet tid (run_id r1)),
                                       Print (Approving (RequiredMcpToolCall call)),
                                       Remote (RunsSubmitToolOutputs tid (run_id r2) [ToolApproval call True]),
                                       Print (StatusLine REQUIRES_ACTION),
                                       Sleep 1, Remote (RunsGet tid (run_id r2)),
                                       Print (StatusLine COMPLETED)]\<rparr>)"
    if "service v = s3" for v
    using that r1(2) r2 approved
    by (simp add: poll.simps [of client tid r1] p2 remote_def emit_def handle_approval_def)
  have p0: "poll client tid r0 v =
      Some (Inr r3, v\<lparr>service := s6,
                       log := log v @ [Sleep 1, Remote (RunsGet tid (run_id r0)),
                                       Print (StatusLine IN_PROGRESS),
                                       Sleep 1, Remote (RunsGet tid (run_id r1)),
                                       Print (Approving (RequiredMcpToolCall call)),
                                       Remote (RunsSubmitToolOutputs tid (run_id r2) [ToolApproval call True]),
                                       Print (StatusLine REQUIRES_ACTION),
                                       Sleep 1, Remote (RunsGet tid (run_id r2)),
                                       Print (StatusLine COMPLETED)]\<rparr>)"
    if "service v = s2" for v
    using that r0(2) r1
    by (simp add: poll.simps [of client tid r0] p1 remote_def emit_def handle_approval_def)
  show ?thesis
    using created r0 r3(2) listed steps
    by (simp add: turn_def p0 remote_def emit_def report_def print_reply_def)
qed

text \<open>The theorem at a run of the scripted service.\<close>

theorem scripted_turn_witness:
  "turn scripted (py ''thread_1'') (JStr (py ''asst_1'')) (py ''hello'')
       (a_world [a_run QUEUED, a_run IN_PROGRESS, an_approval_request, a_run COMPLETED]
          [a_question (py ''hello''), a_reply [py ''hi there'']] Absent) =
     Some (Inr (),
           (a_world [] [a_question (py ''hello''), a_reply [py ''hi there'']] Absent)
             \<lparr>log :=
                [Remote (MessagesCreate (py ''thread_1'') (py ''user'') (py ''hello'')),
                 Print (CreatedMessage (py ''msg_1'')),
                 Remote (RunsCreate (py ''thread_1'') (JStr (py ''asst_1''))),
                 Print (RunLine (py ''run_1'') QUEUED),
                 Sleep 1, Remote (RunsGet (py ''thread_1'') (py ''run_1'')),
                 Print (StatusLine IN_PROGRESS),
                 Sleep 1, Remote (RunsGet (py ''thread_1'') (py ''run_1'')),
                 Print (Approving (RequiredMcpToolCall (py ''call_1''))),
                 Remote (RunsSubmitToolOutputs (py ''thread_1'') (py ''run_1'')
                           [ToolApproval (py ''call_1'') True]),
                 Print (StatusLine REQUIRES_ACTION),
                 Sleep 1, Remote (RunsGet (py ''thread_1'') (py ''run_1'')),
                 Print (StatusLine COMPLETED),
                 Remote (MessagesList (py ''thread_1'') ASCENDING),
                 Print (Assistant (py ''hi there'')),
                 Remote (RunStepsList (py ''thread_1'') (py ''run_1''))]\<rparr>)"
proof -
  let ?msgs = "[a_question (py ''hello''), a_reply [py ''hi there'']]"
  let ?s = "\<lambda>rs. \<lparr>script = rs, thread_messages = ?msgs, steps = []\<rparr>"
  let ?w = "a_world [a_run QUEUED, a_run IN_PROGRESS, an_approval_request, a_run COMPLETED] ?msgs Absent"
  have created: "messages_create scripted (py ''thread_1'') (py ''user'') (py ''hello'') (service ?w) =
      (Inr \<lparr>message_id = py ''msg_1'', role = py ''user'', text_messages = [py ''hello'']\<rparr>,
       ?s [a_run QUEUED, a_run IN_PROGRESS, an_approval_request, a_run COMPLETED])"
    by (simp add: scripted_def a_world_def)
  have r0: "runs_create scripted (py ''thread_1'') (JStr (py ''asst_1''))
        (?s [a_run QUEUED, a_run IN_PROGRESS, an_approval_request, a_run COMPLETED]) =
      (Inr (a_run QUEUED), ?s [a_run IN_PROGRESS, an_approval_request, a_run COMPLETED])"
      "status (a_run QUEUED) = QUEUED"
    by (simp_all add: scripted_def next_run_def a_run_def)
  have r1: "runs_get scripted (py ''thread_1'') (run_id (a_run QUEUED))
        (?s [a_run IN_PROGRESS, an_approval_request, a_run COMPLETED]) =
      (Inr (a_run IN_PROGRESS), ?s [an_approval_request, a_run COMPLETED])"
      "status (a_run IN_PROGRESS) = IN_PROGRESS"
    by (simp_all add: scripted_def next_run_def a_run_def)
  have r2: "runs_get scripted (py ''thread_1'') (run_id (a_run IN_PROGRESS))
        (?s [an_approval_request, a_run COMPLETED]) =
      (Inr an_approval_request, ?s [a_run COMPLETED])"
      "status an_approval_request = REQUIRES_ACTION"
      "required_action an_approval_request =
         Some (SubmitToolApprovalAction [RequiredMcpToolCall (py ''call_1'')])"
    by (simp_all add: scripted_def next_run_def a_run_def an_approval_request_def)
  have approved: "runs_submit_tool_outputs scripted (py ''thread_1'') (run_id an_approval_request)
        [ToolApproval (py ''call_1'') True] (?s [a_run COMPLETED]) = (Inr (), ?s [a_run COMPLETED])"
    by (simp add: scripted_def)
  have r3: "runs_get scripted (py ''thread_1'') (run_id an_approval_request) (?s [a_run COMPLETED]) =
      (Inr (a_run COMPLETED), ?s [])"
      "status (a_run COMPLETED) = COMPLETED"
    by (simp_all add: scripted_def next_run_def a_run_def)
  have listed: "messages_list scripted (py ''thread_1'') ASCENDING (?s []) = (Inr ?msgs, ?s [])"
      "last_assistant ?msgs = Some (py ''hi there'')" "py ''hi there'' \<noteq> []"
    by (simp_all add: scripted_def last_assistant_def a_reply_def a_question_def py_def)
  have listed_steps: "run_steps_list scripted (py ''thread_1'') (run_id (a_run COMPLETED)) (?s []) =
      (Inr [], ?s [])"
    by (simp add: scripted_def)
  from scripted_turn [OF created r0 r1 r2 approved r3 listed listed_steps]
  show ?thesis
    by (simp add: a_world_def a_run_def an_approval_request_def tool_lines_def)
qed

end
